theory Spec2Isabelle
  imports Main "HOL-Library.Char_ord" "HOL-Library.List_Lexorder"
begin

section \<open>Strings\<close>

text \<open>
  The notebook \<^verbatim>\<open>pythess/meta_alltheway/meta_alltheway.ipynb\<close> works on Python
  \<^verbatim>\<open>str\<close> values. The names the notebook itself uses (of classes, attributes
  and keywords) and the lines it prints are modelled as \<^typ>\<open>string\<close>, one
  \<^typ>\<open>char\<close> per code point, which covers the code points below 256; the order
  on \<^typ>\<open>char\<close> is the order of the code points, and the order on strings is the
  lexicographic one, as Python compares \<^verbatim>\<open>str\<close>.

  The function \<^verbatim>\<open>convert\<close> takes any \<^verbatim>\<open>str\<close>. There a string is the list of its
  code points, each a natural number.
\<close>

fun startswith :: "string \<Rightarrow> string \<Rightarrow> bool" where
  \<comment> \<open>\<^verbatim>\<open>s.startswith(p)\<close>\<close>
  "startswith s [] = True"
| "startswith [] (p # ps) = False"
| "startswith (c # cs) (p # ps) = (c = p \<and> startswith cs ps)"

section \<open>The renaming function \<^verbatim>\<open>convert\<close>\<close>

text \<open>
  \<^verbatim>\<open>
  def convert(name):
      s1 = re.sub('(.)([A-Z][a-z]+)', r'\1_\2', name)
      return re.sub('([a-z0-9])([A-Z])', r'\1_\2', s1).lower()
  \<close>
  The character classes of the two patterns are ranges of ASCII code points;
  \<^verbatim>\<open>.\<close> is any code point but the newline.
\<close>

definition cp_AZ :: "nat \<Rightarrow> bool" where
  \<comment> \<open>the character class \<^verbatim>\<open>[A-Z]\<close>\<close>
  "cp_AZ c = (65 \<le> c \<and> c \<le> 90)"

definition cp_az :: "nat \<Rightarrow> bool" where
  \<comment> \<open>the character class \<^verbatim>\<open>[a-z]\<close>\<close>
  "cp_az c = (97 \<le> c \<and> c \<le> 122)"

definition cp_az09 :: "nat \<Rightarrow> bool" where
  \<comment> \<open>the character class \<^verbatim>\<open>[a-z0-9]\<close>\<close>
  "cp_az09 c = (cp_az c \<or> (48 \<le> c \<and> c \<le> 57))"

definition cp_dot :: "nat \<Rightarrow> bool" where
  \<comment> \<open>the pattern \<^verbatim>\<open>.\<close> without DOTALL: any character but the newline\<close>
  "cp_dot c = (c \<noteq> 10)"

text \<open>
  \<^verbatim>\<open>re.sub\<close> scans the string from the left. Where the pattern matches at the
  current position, the replacement is written and the scan goes on behind the
  match; elsewhere one character is copied and the scan goes on one character
  further. Neither pattern matches the empty string.

  The first pattern matches at a position that holds any character but a
  newline, then one of A-Z, then one of a-z; the greedy \<^verbatim>\<open>[a-z]+\<close> takes the
  whole run of a-z, and nothing follows it in the pattern, so no backtracking
  happens. The replacement puts an underscore (code point 95) behind the first
  character.
\<close>

function re_sub1 :: "nat list \<Rightarrow> nat list" where
  "re_sub1 (c # u # l # rest) =
     (if cp_dot c \<and> cp_AZ u \<and> cp_az l
      then c # 95 # u # takeWhile cp_az (l # rest) @ re_sub1 (dropWhile cp_az (l # rest))
      else c # re_sub1 (u # l # rest))"
| "re_sub1 [c, u] = [c, u]"
| "re_sub1 [c] = [c]"
| "re_sub1 [] = []"
  by pat_completeness auto
termination
proof (relation "measure length")
  show "wf (measure (length :: nat list \<Rightarrow> nat))" by simp
next
  fix c u l :: nat and rest :: "nat list"
  have "length (dropWhile cp_az (l # rest)) \<le> length (l # rest)"
    by (rule length_dropWhile_le)
  then show "(dropWhile cp_az (l # rest), c # u # l # rest) \<in> measure length"
    by simp
next
  fix c u l :: nat and rest :: "nat list"
  show "(u # l # rest, c # u # l # rest) \<in> measure length" by simp
qed

text \<open>The second pattern matches one of a-z or 0-9 followed by one of A-Z.\<close>

fun re_sub2 :: "nat list \<Rightarrow> nat list" where
  "re_sub2 (c # u # rest) =
     (if cp_az09 c \<and> cp_AZ u
      then c # 95 # u # re_sub2 rest
      else c # re_sub2 (u # rest))"
| "re_sub2 [c] = [c]"
| "re_sub2 [] = []"

text \<open>
  \<^verbatim>\<open>str.lower\<close> and the test for an uppercase letter (\<^verbatim>\<open>str.isupper\<close> on one
  character) follow the tables of Unicode, which are not part of the notebook.
  Below code point 256 the tables are written out: the uppercase letters are
  A-Z and U+00C0..U+00DE without the multiplication sign U+00D7, and
  \<^verbatim>\<open>str.lower\<close> maps each of them to the code point 32 above and keeps every
  other character. For a string with a code point from 256 on, \<^verbatim>\<open>str.lower\<close> is
  the parameter \<open>lower_beyond\<close> (a function of the whole string: the lowercase
  of a capital sigma depends on its neighbours), and for a code point from 256
  on the test for an uppercase letter is the parameter \<open>upper_beyond\<close>.
\<close>

definition cp_upper :: "nat \<Rightarrow> bool" where
  "cp_upper c = ((65 \<le> c \<and> c \<le> 90) \<or> (192 \<le> c \<and> c \<le> 222 \<and> c \<noteq> 215))"

definition cp_lower :: "nat \<Rightarrow> nat" where
  "cp_lower c =
     (if 65 \<le> c \<and> c \<le> 90 then c + 32
      else if 192 \<le> c \<and> c \<le> 214 then c + 32
      else if 216 \<le> c \<and> c \<le> 222 then c + 32
      else c)"

record unicode =
  lower_beyond :: "nat list \<Rightarrow> nat list"
  upper_beyond :: "nat \<Rightarrow> bool"

definition str_lower :: "unicode \<Rightarrow> nat list \<Rightarrow> nat list" where
  \<comment> \<open>\<^verbatim>\<open>s.lower()\<close>\<close>
  "str_lower t s = (if list_all (\<lambda>c. c < 256) s then map cp_lower s else lower_beyond t s)"

definition is_upper :: "unicode \<Rightarrow> nat \<Rightarrow> bool" where
  \<comment> \<open>the code point is an uppercase letter\<close>
  "is_upper t c = (if c < 256 then cp_upper c else upper_beyond t c)"

definition convert_u :: "unicode \<Rightarrow> nat list \<Rightarrow> nat list" where
  \<comment> \<open>\<^verbatim>\<open>convert(name)\<close>, for any \<^verbatim>\<open>str\<close>\<close>
  "convert_u t name = (let s1 = re_sub1 name in str_lower t (re_sub2 s1))"

text \<open>
  Two entries of the tables of Unicode beyond code point 255, in a sample
  table that lowers character by character: U+03D2 (GREEK UPSILON WITH HOOK
  SYMBOL) is an uppercase letter that \<^verbatim>\<open>str.lower\<close> keeps, and U+01C5 (LATIN
  CAPITAL LETTER D WITH SMALL LETTER Z WITH CARON) is a titlecase letter, not
  an uppercase one, that \<^verbatim>\<open>str.lower\<close> turns into U+01C6. On the other code
  points from 256 on the sample is not the table of Unicode.
\<close>

definition unicode_sample :: unicode where
  "unicode_sample =
     \<lparr>lower_beyond = map (\<lambda>c. if c = 0x1C5 then 0x1C6 else cp_lower c),
      upper_beyond = (\<lambda>c. c = 0x3D2)\<rparr>"

text \<open>
  The names of the notebook have their code points below 256. There
  \<^verbatim>\<open>str.lower\<close> is the table written out above, and every code point of the
  result is below 256 again, so that \<^verbatim>\<open>convert\<close> maps a \<^typ>\<open>string\<close> to a
  \<^typ>\<open>string\<close>.
\<close>

definition convert :: "string \<Rightarrow> string" where
  \<comment> \<open>\<^verbatim>\<open>convert(name)\<close>, for a name with its code points below 256\<close>
  "convert name =
     (let s1 = re_sub1 (map of_char name) in map char_of (map cp_lower (re_sub2 s1)))"

section \<open>Values, dictionaries and printed text\<close>

text \<open>
  The values the notebook passes to constructors are \<^verbatim>\<open>None\<close>, integers and
  strings. A dictionary keeps its keys in insertion order; assigning to a key
  that is present replaces the value in place.
\<close>

datatype pyval = PyNone | PyInt int | PyStr string

datatype error = TypeError string | KeyError string

fun dict_set :: "'k \<Rightarrow> 'v \<Rightarrow> ('k \<times> 'v) list \<Rightarrow> ('k \<times> 'v) list" where
  \<comment> \<open>\<^verbatim>\<open>d[k] = v\<close>\<close>
  "dict_set k v [] = [(k, v)]"
| "dict_set k v ((k', v') # d) =
     (if k' = k then (k', v) # d else (k', v') # dict_set k v d)"

definition dict_has :: "('k \<times> 'v) list \<Rightarrow> 'k \<Rightarrow> bool" where
  \<comment> \<open>\<^verbatim>\<open>k in d\<close>\<close>
  "dict_has d k = (map_of d k \<noteq> None)"

definition setdefault :: "'k \<Rightarrow> 'v \<Rightarrow> ('k \<times> 'v) list \<Rightarrow> ('k \<times> 'v) list" where
  "setdefault k v d = (if dict_has d k then d else d @ [(k, v)])"

fun digit_char :: "nat \<Rightarrow> char" where
  \<comment> \<open>one digit below 16, lowercase\<close>
  "digit_char n =
     (if n < 10 then char_of (of_char (CHR ''0'') + n)
      else char_of (of_char (CHR ''a'') + (n - 10)))"

fun dec_nat :: "nat \<Rightarrow> string" where
  "dec_nat n = (if n < 10 then [digit_char n] else dec_nat (n div 10) @ [digit_char (n mod 10)])"

declare dec_nat.simps [simp del]

definition dec_int :: "int \<Rightarrow> string" where
  "dec_int i = (if i < 0 then CHR ''-'' # dec_nat (nat (- i)) else dec_nat (nat i))"

definition is_printable :: "char \<Rightarrow> bool" where
  \<comment> \<open>\<^verbatim>\<open>str.isprintable\<close> on one code point below 256\<close>
  "is_printable c =
     ((CHR 0x20 \<le> c \<and> c \<le> CHR 0x7E) \<or> (CHR 0xA1 \<le> c \<and> c \<noteq> CHR 0xAD))"

definition repr_char :: "char \<Rightarrow> char \<Rightarrow> string" where
  \<comment> \<open>one character inside \<^verbatim>\<open>repr\<close> of a string that is quoted with \<open>q\<close>\<close>
  "repr_char q c =
     (if c = q \<or> c = CHR 0x5C then [CHR 0x5C, c]
      else if c = CHR 0x09 then [CHR 0x5C, CHR ''t'']
      else if c = CHR 0x0A then [CHR 0x5C, CHR ''n'']
      else if c = CHR 0x0D then [CHR 0x5C, CHR ''r'']
      else if is_printable c then [c]
      else [CHR 0x5C, CHR ''x'', digit_char (of_char c div 16), digit_char (of_char c mod 16)])"

definition repr_str :: "string \<Rightarrow> string" where
  \<comment> \<open>\<^verbatim>\<open>repr(s)\<close>: single quotes, unless the string holds a single quote and no
      double quote\<close>
  "repr_str s =
     (let q = (if CHR 0x27 \<in> set s \<and> CHR 0x22 \<notin> set s then CHR 0x22 else CHR 0x27)
      in q # concat (map (repr_char q) s) @ [q])"

fun join :: "string \<Rightarrow> string list \<Rightarrow> string" where
  \<comment> \<open>\<^verbatim>\<open>sep.join(xs)\<close>\<close>
  "join sep [] = []"
| "join sep [x] = x"
| "join sep (x # y # xs) = x @ sep @ join sep (y # xs)"

fun repr_val :: "pyval \<Rightarrow> string" where
  "repr_val PyNone = ''None''"
| "repr_val (PyInt i) = dec_int i"
| "repr_val (PyStr s) = repr_str s"

fun str_val :: "pyval \<Rightarrow> string" where
  \<comment> \<open>\<^verbatim>\<open>'{}'.format(v)\<close>\<close>
  "str_val (PyStr s) = s"
| "str_val v = repr_val v"

definition repr_list :: "string list \<Rightarrow> string" where
  \<comment> \<open>a list, given the \<^verbatim>\<open>repr\<close> of its items\<close>
  "repr_list items = ''['' @ join '', '' items @ '']''"

definition repr_tuple :: "string list \<Rightarrow> string" where
  \<comment> \<open>a tuple, given the \<^verbatim>\<open>repr\<close> of its items\<close>
  "repr_tuple items =
     (case items of [x] \<Rightarrow> ''('' @ x @ '',)'' | _ \<Rightarrow> ''('' @ join '', '' items @ '')'')"

definition repr_dict :: "(string \<times> pyval) list \<Rightarrow> string" where
  "repr_dict d = ''{'' @ join '', '' (map (\<lambda>(k, v). repr_str k @ '': '' @ repr_val v) d) @ ''}''"

section \<open>The two renaming loops\<close>

text \<open>
  \<^verbatim>\<open>
  snake_attrs = {}
  for attr_name, attr_val in attrs.items():
      if not attr_name.startswith('__'):
          snake_attrs[convert(attr_name)] = attr_val
      else:
          snake_attrs[attr_name] = attr_val
  \<close>
  is the loop of the function \<^verbatim>\<open>camel_to_snake_case\<close>. The loop of
  \<^verbatim>\<open>CamelToSnake.__new__\<close> is the same text but for its test, which reads
  \<^verbatim>\<open>if not name.startswith('__')\<close>, with the name of the class.
\<close>

fun camel_to_snake_case_loop ::
  "(string \<times> 'v) list \<Rightarrow> (string \<times> 'v) list \<Rightarrow> (string \<times> 'v) list" where
  "camel_to_snake_case_loop [] snake_attrs = snake_attrs"
| "camel_to_snake_case_loop ((attr_name, attr_val) # items) snake_attrs =
     camel_to_snake_case_loop items
       (if \<not> startswith attr_name ''__''
        then dict_set (convert attr_name) attr_val snake_attrs
        else dict_set attr_name attr_val snake_attrs)"

fun CamelToSnake_loop ::
  "string \<Rightarrow> (string \<times> 'v) list \<Rightarrow> (string \<times> 'v) list \<Rightarrow> (string \<times> 'v) list" where
  "CamelToSnake_loop name [] snake_attrs = snake_attrs"
| "CamelToSnake_loop name ((attr_name, attr_val) # items) snake_attrs =
     CamelToSnake_loop name items
       (if \<not> startswith name ''__''
        then dict_set (convert attr_name) attr_val snake_attrs
        else dict_set attr_name attr_val snake_attrs)"

definition camel_to_snake_case_attrs ::
  "string \<Rightarrow> 'b \<Rightarrow> (string \<times> 'v) list \<Rightarrow> (string \<times> 'v) list" where
  \<comment> \<open>the dictionary that \<^verbatim>\<open>camel_to_snake_case(name, bases, attrs)\<close> passes to \<^verbatim>\<open>type\<close>\<close>
  "camel_to_snake_case_attrs name bases attrs = camel_to_snake_case_loop attrs []"

definition CamelToSnake_new_attrs ::
  "string \<Rightarrow> 'b \<Rightarrow> (string \<times> 'v) list \<Rightarrow> (string \<times> 'v) list" where
  \<comment> \<open>the dictionary that \<^verbatim>\<open>CamelToSnake.__new__(mcs, name, bases, attrs)\<close> passes to
      \<^verbatim>\<open>type.__new__\<close>\<close>
  "CamelToSnake_new_attrs name bases attrs = CamelToSnake_loop name attrs []"

section \<open>Class objects\<close>

text \<open>
  A class object has an identity, a name, a metaclass, its bases, its
  \<^verbatim>\<open>__dict__\<close> and, where \<^verbatim>\<open>ABCMeta\<close> made it, its \<^verbatim>\<open>__abstractmethods__\<close>.
  The functions a class body of the notebook defines are \<^verbatim>\<open>pass\<close> methods and
  five constructors; a function carries its \<^verbatim>\<open>__isabstractmethod__\<close> flag.
  \<^verbatim>\<open>Slot\<close> stands for the built-in methods and descriptors of \<^verbatim>\<open>object\<close> and
  \<^verbatim>\<open>type\<close>.
\<close>

datatype func =
  F_pass | F_Car_init | F_MyClass1_new | F_MyClass1_init | F_MyClass2_new | F_MyClass2_init

datatype attr = Func func bool | Val pyval | Slot

datatype metaclass = Type | ABCMeta | MyMeta | CamelToSnake | Singleton | SnakeSingleton

datatype pyclass =
  PyClass (c_id: nat) (c_name: string) (c_qualname: string) (c_meta: metaclass)
    (c_bases: "pyclass list") (c_dict: "(string \<times> attr) list") (c_abstract: "string list")

definition object_class :: pyclass where
  \<comment> \<open>the built-in \<^verbatim>\<open>object\<close>, with the names of \<^verbatim>\<open>object.__dict__\<close> in Python 3.6\<close>
  "object_class =
     PyClass 0 ''object'' ''object'' Type []
       (map (\<lambda>k. (k, Slot))
          [''__class__'', ''__delattr__'', ''__dir__'', ''__doc__'', ''__eq__'', ''__format__'',
           ''__ge__'', ''__getattribute__'', ''__gt__'', ''__hash__'', ''__init__'',
           ''__init_subclass__'', ''__le__'', ''__lt__'', ''__ne__'', ''__new__'', ''__reduce__'',
           ''__reduce_ex__'', ''__repr__'', ''__setattr__'', ''__sizeof__'', ''__str__'',
           ''__subclasshook__''])
       []"

fun lookup :: "pyclass \<Rightarrow> string \<Rightarrow> attr option"
  and lookup_bases :: "pyclass list \<Rightarrow> string \<Rightarrow> attr option" where
  \<comment> \<open>\<^verbatim>\<open>getattr(cls, k)\<close> through the class and its bases, left to right, which is
      the method resolution order of the single-inheritance classes of the notebook\<close>
  "lookup (PyClass i n q m bs d a) k =
     (case map_of d k of Some v \<Rightarrow> Some v | None \<Rightarrow> lookup_bases bs k)"
| "lookup_bases [] k = None"
| "lookup_bases (b # bs) k =
     (case lookup b k of Some v \<Rightarrow> Some v | None \<Rightarrow> lookup_bases bs k)"

fun merged_names :: "pyclass \<Rightarrow> string list"
  and merged_names_bases :: "pyclass list \<Rightarrow> string list" where
  \<comment> \<open>the keys \<^verbatim>\<open>type.__dir__\<close> collects: those of the class, then of its bases\<close>
  "merged_names (PyClass i n q m bs d a) = map fst d @ merged_names_bases bs"
| "merged_names_bases [] = []"
| "merged_names_bases (b # bs) = merged_names b @ merged_names_bases bs"

definition dir_class :: "pyclass \<Rightarrow> string list" where
  \<comment> \<open>\<^verbatim>\<open>dir(cls)\<close>: the collected names, sorted, each once\<close>
  "dir_class cls = sort (remdups (merged_names cls))"

definition class_module :: "pyclass \<Rightarrow> string" where
  "class_module cls =
     (case map_of (c_dict cls) ''__module__'' of Some (Val (PyStr m)) \<Rightarrow> m | _ \<Rightarrow> ''__main__'')"

definition str_class :: "pyclass \<Rightarrow> string" where
  \<comment> \<open>\<^verbatim>\<open>'{}'.format(cls)\<close>\<close>
  "str_class cls = ''<class '' @ [CHR 0x27] @ class_module cls @ ''.'' @ c_qualname cls @ [CHR 0x27] @ ''>''"

section \<open>The interpreter state\<close>

text \<open>
  The state holds the instances created so far, the dictionary
  \<^verbatim>\<open>Singleton._instances\<close> (from the identity of a class to the identity of its
  instance) and the lines printed. The identity of an object is a number
  (CPython: its address); a new object takes the next one. How the platform
  writes an address (\<^verbatim>\<open>%p\<close>) is a component of the state that no operation
  changes. \<open>ctor_log\<close> records every call of a \<^verbatim>\<open>__new__\<close> and of an
  \<^verbatim>\<open>__init__\<close> that \<^verbatim>\<open>type.__call__\<close> makes, with the identity of the class.
\<close>

record pyobj =
  o_class :: nat
  o_attrs :: "(string \<times> pyval) list"

datatype event = NewCalled nat | InitCalled nat

record world =
  ptr_fmt :: "nat \<Rightarrow> string"
  next_id :: nat
  heap :: "(nat \<times> pyobj) list"
  instances :: "(nat \<times> nat) list"
  ctor_log :: "event list"
  stdout :: "string list"

type_synonym 'a result = "(error + 'a) \<times> world"

definition alloc :: "world \<Rightarrow> nat \<times> world" where
  "alloc w = (next_id w, w\<lparr>next_id := Suc (next_id w)\<rparr>)"

definition print :: "string \<Rightarrow> world \<Rightarrow> world" where
  \<comment> \<open>\<^verbatim>\<open>print(s)\<close>: one more line on the console\<close>
  "print s w = w\<lparr>stdout := stdout w @ [s]\<rparr>"

definition log_event :: "event \<Rightarrow> world \<Rightarrow> world" where
  "log_event e w = w\<lparr>ctor_log := ctor_log w @ [e]\<rparr>"

definition setattr :: "nat \<Rightarrow> string \<Rightarrow> pyval \<Rightarrow> world \<Rightarrow> world" where
  \<comment> \<open>\<^verbatim>\<open>self.k = v\<close>\<close>
  "setattr self k v w =
     w\<lparr>heap := map (\<lambda>(i, ob). if i = self then (i, ob\<lparr>o_attrs := dict_set k v (o_attrs ob)\<rparr>)
                                else (i, ob)) (heap w)\<rparr>"

definition object_repr :: "world \<Rightarrow> pyclass \<Rightarrow> nat \<Rightarrow> string" where
  \<comment> \<open>\<^verbatim>\<open>object.__repr__(self)\<close>, where \<open>cls\<close> is \<^verbatim>\<open>type(self)\<close>\<close>
  "object_repr w cls self =
     ''<'' @ class_module cls @ ''.'' @ c_qualname cls @ '' object at '' @ ptr_fmt w self @ ''>''"

section \<open>Creating classes\<close>

text \<open>
  \<^verbatim>\<open>type.__new__(metatype, name, bases, attrs)\<close> first finds the most derived
  metaclass among \<open>metatype\<close> and the metaclasses of the bases, and raises
  \<^verbatim>\<open>TypeError\<close> when there is none. The class it makes has \<^verbatim>\<open>object\<close> as its
  base when no base is given; its \<^verbatim>\<open>__dict__\<close> is a copy of \<open>attrs\<close> without
  \<^verbatim>\<open>__qualname__\<close> and \<^verbatim>\<open>__classcell__\<close>, with \<^verbatim>\<open>__module__\<close>, \<^verbatim>\<open>__doc__\<close> and, unless
  inherited, \<^verbatim>\<open>__dict__\<close> and \<^verbatim>\<open>__weakref__\<close> added.
\<close>

definition meta_subtype :: "metaclass \<Rightarrow> metaclass \<Rightarrow> bool" where
  \<comment> \<open>\<^verbatim>\<open>issubclass(m1, m2)\<close>: every metaclass derives from \<^verbatim>\<open>type\<close>, and
      \<^verbatim>\<open>class SnakeSingleton(CamelToSnake, Singleton)\<close>\<close>
  "meta_subtype m1 m2 =
     (m2 = Type \<or> m1 = m2 \<or> (m1 = SnakeSingleton \<and> (m2 = CamelToSnake \<or> m2 = Singleton)))"

definition metaclass_conflict :: string where
  "metaclass_conflict =
     ''metaclass conflict: the metaclass of a derived class must be a (non-strict) subclass of the metaclasses of all its bases''"

fun calculate_metaclass :: "metaclass \<Rightarrow> pyclass list \<Rightarrow> error + metaclass" where
  "calculate_metaclass winner [] = Inr winner"
| "calculate_metaclass winner (b # bs) =
     (if meta_subtype winner (c_meta b) then calculate_metaclass winner bs
      else if meta_subtype (c_meta b) winner then calculate_metaclass (c_meta b) bs
      else Inl (TypeError metaclass_conflict))"

definition make_class ::
  "nat \<Rightarrow> metaclass \<Rightarrow> string \<Rightarrow> pyclass list \<Rightarrow> (string \<times> attr) list \<Rightarrow> pyclass" where
  \<comment> \<open>the class object, given its identity\<close>
  "make_class i meta name bases attrs =
     (let bases1 = (if bases = [] then [object_class] else bases);
          inherited = merged_names_bases bases1;
          qualname = (case map_of attrs ''__qualname__'' of Some (Val (PyStr q)) \<Rightarrow> q | _ \<Rightarrow> name);
          d0 = filter (\<lambda>(k, v). k \<noteq> ''__qualname__'' \<and> k \<noteq> ''__classcell__'') attrs;
          d1 = setdefault ''__module__'' (Val (PyStr ''__main__'')) d0;
          d2 = (if ''__dict__'' \<in> set inherited then d1 else setdefault ''__dict__'' Slot d1);
          d3 = (if ''__weakref__'' \<in> set inherited then d2 else setdefault ''__weakref__'' Slot d2);
          d4 = setdefault ''__doc__'' (Val PyNone) d3
      in PyClass i name qualname meta bases1 d4 [])"

definition type_create ::
  "metaclass \<Rightarrow> string \<Rightarrow> pyclass list \<Rightarrow> (string \<times> attr) list \<Rightarrow> world \<Rightarrow> pyclass \<times> world" where
  "type_create meta name bases attrs w =
     (let (i, w1) = alloc w in (make_class i meta name bases attrs, w1))"

definition type_new_direct ::
  "metaclass \<Rightarrow> string \<Rightarrow> pyclass list \<Rightarrow> (string \<times> attr) list \<Rightarrow> world \<Rightarrow> pyclass result" where
  \<comment> \<open>\<^verbatim>\<open>super().__new__(mcs, name, bases, attrs)\<close> as a metaclass of the notebook
      calls it: \<open>mcs\<close> is then the metaclass the class statement has found\<close>
  "type_new_direct mcs name bases attrs w =
     (case calculate_metaclass mcs bases of
        Inl e \<Rightarrow> (Inl e, w)
      | Inr winner \<Rightarrow> (case type_create winner name bases attrs w of (cls, w1) \<Rightarrow> (Inr cls, w1)))"

text \<open>
  \<^verbatim>\<open>
  class CamelToSnake(type):
      def __new__(mcs, name, bases, attrs):
          snake_attrs = {}
          for attr_name, attr_val in attrs.items(): ...
          return super().__new__(mcs, name, bases, snake_attrs)
  \<close>
\<close>

definition CamelToSnake_new ::
  "metaclass \<Rightarrow> string \<Rightarrow> pyclass list \<Rightarrow> (string \<times> attr) list \<Rightarrow> world \<Rightarrow> pyclass result" where
  "CamelToSnake_new mcs name bases attrs w =
     (let snake_attrs = CamelToSnake_new_attrs name bases attrs
      in type_new_direct mcs name bases snake_attrs w)"

text \<open>
  \<^verbatim>\<open>ABCMeta.__new__\<close> of the standard library (Python 3.6) makes the class, then
  collects the names of the abstract functions of the namespace and the
  abstract names of the bases that the new class still resolves to an abstract
  function, and stores them as \<^verbatim>\<open>__abstractmethods__\<close>. It raises nothing of its
  own.
\<close>

definition isabstractmethod :: "attr \<Rightarrow> bool" where
  \<comment> \<open>\<^verbatim>\<open>getattr(value, "__isabstractmethod__", False)\<close>\<close>
  "isabstractmethod value = (case value of Func f b \<Rightarrow> b | _ \<Rightarrow> False)"

definition abc_setup :: "pyclass \<Rightarrow> pyclass list \<Rightarrow> (string \<times> attr) list \<Rightarrow> pyclass" where
  \<comment> \<open>what \<^verbatim>\<open>ABCMeta.__new__\<close> does to the class \<^verbatim>\<open>type.__new__\<close> has made\<close>
  "abc_setup cls bases namespace =
     (let abstracts = map fst (filter (\<lambda>(name, value). isabstractmethod value) namespace);
          inherited = filter (\<lambda>name. case lookup cls name of
                                        Some value \<Rightarrow> isabstractmethod value
                                      | None \<Rightarrow> False)
                        (concat (map c_abstract bases));
          abstractmethods = sort (remdups (abstracts @ inherited));
          d = c_dict cls @
                map (\<lambda>k. (k, Slot))
                  [''__abstractmethods__'', ''_abc_registry'', ''_abc_cache'',
                   ''_abc_negative_cache'', ''_abc_negative_cache_version'']
      in PyClass (c_id cls) (c_name cls) (c_qualname cls) (c_meta cls) (c_bases cls)
           d abstractmethods)"

definition ABCMeta_new ::
  "metaclass \<Rightarrow> string \<Rightarrow> pyclass list \<Rightarrow> (string \<times> attr) list \<Rightarrow> world \<Rightarrow> pyclass result" where
  "ABCMeta_new mcls name bases namespace w =
     (case type_new_direct mcls name bases namespace w of
        (Inl e, w1) \<Rightarrow> (Inl e, w1)
      | (Inr cls, w1) \<Rightarrow> (Inr (abc_setup cls bases namespace), w1))"

text \<open>
  A call that gives every parameter in \<open>params\<close> by position, to a function
  that has (\<open>star\<close>) or has not a \<^verbatim>\<open>**kwargs\<close> parameter. The keywords are bound
  in their order: one that names a parameter gives it a second value; one that
  names no parameter goes into \<^verbatim>\<open>**kwargs\<close>, or is unexpected where there is
  none.
\<close>

definition unexpected_keyword :: "string \<Rightarrow> string \<Rightarrow> error" where
  "unexpected_keyword fname k =
     TypeError (fname @ ''() got an unexpected keyword argument '' @ [CHR 0x27] @ k @ [CHR 0x27])"

definition multiple_values :: "string \<Rightarrow> string \<Rightarrow> error" where
  "multiple_values fname k =
     TypeError (fname @ ''() got multiple values for argument '' @ [CHR 0x27] @ k @ [CHR 0x27])"

fun bind_positional ::
  "string \<Rightarrow> string list \<Rightarrow> bool \<Rightarrow> (string \<times> pyval) list \<Rightarrow> error option" where
  "bind_positional fname params star [] = None"
| "bind_positional fname params star ((k, v) # kwargs) =
     (if k \<in> set params then Some (multiple_values fname k)
      else if \<not> star then Some (unexpected_keyword fname k)
      else bind_positional fname params star kwargs)"

text \<open>
  \<^verbatim>\<open>MyMeta\<close> prints its arguments in \<^verbatim>\<open>__prepare__\<close>, \<^verbatim>\<open>__new__\<close> and \<^verbatim>\<open>__init__\<close>
  (the format strings of the notebook do not close the parenthesis), and
  leaves the work to \<^verbatim>\<open>type\<close>. Their signatures are
  \<^verbatim>\<open>__prepare__(mcs, name, bases, **kwargs)\<close>,
  \<^verbatim>\<open>__new__(mcs, name, bases, attrs, **kwargs)\<close> and
  \<^verbatim>\<open>__init__(cls, name, bases, attrs, **kwargs)\<close>.
\<close>

definition str_meta :: "metaclass \<Rightarrow> string" where
  "str_meta m =
     (case m of
        Type \<Rightarrow> ''<class '' @ [CHR 0x27] @ ''type'' @ [CHR 0x27] @ ''>''
      | ABCMeta \<Rightarrow> ''<class '' @ [CHR 0x27] @ ''abc.ABCMeta'' @ [CHR 0x27] @ ''>''
      | MyMeta \<Rightarrow> ''<class '' @ [CHR 0x27] @ ''__main__.MyMeta'' @ [CHR 0x27] @ ''>''
      | CamelToSnake \<Rightarrow> ''<class '' @ [CHR 0x27] @ ''__main__.CamelToSnake'' @ [CHR 0x27] @ ''>''
      | Singleton \<Rightarrow> ''<class '' @ [CHR 0x27] @ ''__main__.Singleton'' @ [CHR 0x27] @ ''>''
      | SnakeSingleton \<Rightarrow> ''<class '' @ [CHR 0x27] @ ''__main__.SnakeSingleton'' @ [CHR 0x27] @ ''>'')"

definition MyMeta_prepare ::
  "metaclass \<Rightarrow> string \<Rightarrow> pyclass list \<Rightarrow> (string \<times> pyval) list \<Rightarrow> world \<Rightarrow> unit result" where
  "MyMeta_prepare mcs name bases kwargs w =
     (case bind_positional ''__prepare__'' [''mcs'', ''name'', ''bases''] True kwargs of
        Some e \<Rightarrow> (Inl e, w)
      | None \<Rightarrow>
          (Inr (), print (''Meta.__prepare__(mcs='' @ str_meta mcs @ '', name='' @ name @ '', bases=''
                          @ repr_tuple (map str_class bases) @ '', **'' @ repr_dict kwargs) w))"

definition MyMeta_new ::
  "metaclass \<Rightarrow> string \<Rightarrow> pyclass list \<Rightarrow> (string \<times> attr) list \<Rightarrow> (string \<times> pyval) list
     \<Rightarrow> world \<Rightarrow> pyclass result" where
  "MyMeta_new mcs name bases attrs kwargs w =
     (case bind_positional ''__new__'' [''mcs'', ''name'', ''bases'', ''attrs''] True kwargs of
        Some e \<Rightarrow> (Inl e, w)
      | None \<Rightarrow>
          (let w1 = print (''MyMeta.__new__(mcs='' @ str_meta mcs @ '', name='' @ name @ '', bases=''
                           @ repr_tuple (map str_class bases) @ '', attrs=''
                           @ repr_list (map (repr_str \<circ> fst) attrs) @ '', **'' @ repr_dict kwargs) w
           in type_new_direct mcs name bases attrs w1))"

definition MyMeta_init ::
  "pyclass \<Rightarrow> string \<Rightarrow> pyclass list \<Rightarrow> (string \<times> attr) list \<Rightarrow> (string \<times> pyval) list
     \<Rightarrow> world \<Rightarrow> unit result" where
  "MyMeta_init cls name bases attrs kwargs w =
     (case bind_positional ''__init__'' [''cls'', ''name'', ''bases'', ''attrs''] True kwargs of
        Some e \<Rightarrow> (Inl e, w)
      | None \<Rightarrow>
          (Inr (), print (''MyMeta.__init__(cls='' @ str_class cls @ '', name='' @ name @ '', bases=''
                          @ repr_tuple (map str_class bases) @ '', attrs=''
                          @ repr_list (map (repr_str \<circ> fst) attrs) @ '', **'' @ repr_dict kwargs) w))"

text \<open>
  \<open>meta_new m\<close> is \<^verbatim>\<open>m.__new__(m, name, bases, attrs, **kwargs)\<close> and
  \<open>meta_init m\<close> is \<^verbatim>\<open>m.__init__(cls, name, bases, attrs, **kwargs)\<close>, as the
  metaclass \<open>m\<close> defines or inherits them. Only \<^verbatim>\<open>MyMeta\<close> takes keyword
  arguments: \<^verbatim>\<open>CamelToSnake.__new__(mcs, name, bases, attrs)\<close> and
  \<^verbatim>\<open>ABCMeta.__new__(mcls, name, bases, namespace)\<close> have no \<^verbatim>\<open>**kwargs\<close>, and
  \<^verbatim>\<open>type.__new__\<close> hands the keywords to \<^verbatim>\<open>__init_subclass__\<close>, which takes none.
\<close>

definition meta_new ::
  "metaclass \<Rightarrow> string \<Rightarrow> pyclass list \<Rightarrow> (string \<times> attr) list \<Rightarrow> (string \<times> pyval) list
     \<Rightarrow> world \<Rightarrow> pyclass result" where
  "meta_new m name bases attrs kwargs w =
     (case m of
        MyMeta \<Rightarrow> MyMeta_new m name bases attrs kwargs w
      | ABCMeta \<Rightarrow>
          (case bind_positional ''__new__'' [''mcls'', ''name'', ''bases'', ''namespace''] False kwargs of
             Some e \<Rightarrow> (Inl e, w)
           | None \<Rightarrow> ABCMeta_new m name bases attrs w)
      | CamelToSnake \<Rightarrow>
          (case bind_positional ''__new__'' [''mcs'', ''name'', ''bases'', ''attrs''] False kwargs of
             Some e \<Rightarrow> (Inl e, w)
           | None \<Rightarrow> CamelToSnake_new m name bases attrs w)
      | SnakeSingleton \<Rightarrow>
          (case bind_positional ''__new__'' [''mcs'', ''name'', ''bases'', ''attrs''] False kwargs of
             Some e \<Rightarrow> (Inl e, w)
           | None \<Rightarrow> CamelToSnake_new m name bases attrs w)
      | _ \<Rightarrow>
          (case type_new_direct m name bases attrs w of
             (Inl e, w1) \<Rightarrow> (Inl e, w1)
           | (Inr cls, w1) \<Rightarrow>
               (if kwargs \<noteq> []
                then (Inl (TypeError ''__init_subclass__() takes no keyword arguments''), w1)
                else (Inr cls, w1))))"

definition meta_init ::
  "metaclass \<Rightarrow> pyclass \<Rightarrow> string \<Rightarrow> pyclass list \<Rightarrow> (string \<times> attr) list
     \<Rightarrow> (string \<times> pyval) list \<Rightarrow> world \<Rightarrow> unit result" where
  "meta_init m cls name bases attrs kwargs w =
     (if m = MyMeta then MyMeta_init cls name bases attrs kwargs w else (Inr (), w))"

definition has_own_new :: "metaclass \<Rightarrow> bool" where
  "has_own_new m = (m = ABCMeta \<or> m = MyMeta \<or> m = CamelToSnake \<or> m = SnakeSingleton)"

definition type_new ::
  "metaclass \<Rightarrow> string \<Rightarrow> pyclass list \<Rightarrow> (string \<times> attr) list \<Rightarrow> world \<Rightarrow> pyclass result" where
  \<comment> \<open>\<^verbatim>\<open>type.__new__\<close> in full: where the most derived metaclass is another one
      with a \<^verbatim>\<open>__new__\<close> of its own, the call is passed on to it\<close>
  "type_new metatype name bases attrs w =
     (case calculate_metaclass metatype bases of
        Inl e \<Rightarrow> (Inl e, w)
      | Inr winner \<Rightarrow>
          (if winner \<noteq> metatype \<and> has_own_new winner then meta_new winner name bases attrs [] w
           else (case type_create winner name bases attrs w of (cls, w1) \<Rightarrow> (Inr cls, w1))))"

definition type_3 ::
  "string \<Rightarrow> pyclass list \<Rightarrow> (string \<times> attr) list \<Rightarrow> world \<Rightarrow> pyclass result" where
  \<comment> \<open>\<^verbatim>\<open>type(name, bases, attrs)\<close>: \<^verbatim>\<open>type.__new__\<close>, then the \<^verbatim>\<open>__init__\<close> of the
      metaclass of the result\<close>
  "type_3 name bases attrs w =
     (case type_new Type name bases attrs w of
        (Inl e, w1) \<Rightarrow> (Inl e, w1)
      | (Inr cls, w1) \<Rightarrow>
          (case meta_init (c_meta cls) cls name bases attrs [] w1 of
             (Inl e, w2) \<Rightarrow> (Inl e, w2)
           | (Inr u, w2) \<Rightarrow> (Inr cls, w2)))"

text \<open>
  \<^verbatim>\<open>
  def camel_to_snake_case(name, bases, attrs):
      print("Calling the metaclass camel_to_snake_case to construct class: {}".format(name))
      snake_attrs = {} ...
      return type(name, bases, snake_attrs)

  def meta_function(name, bases, attrs):
      print('Calling meta_function')
      return type(name, bases, attrs)
  \<close>
\<close>

definition camel_to_snake_case ::
  "string \<Rightarrow> pyclass list \<Rightarrow> (string \<times> attr) list \<Rightarrow> world \<Rightarrow> pyclass result" where
  "camel_to_snake_case name bases attrs w =
     (let w1 = print (''Calling the metaclass camel_to_snake_case to construct class: '' @ name) w;
          snake_attrs = camel_to_snake_case_attrs name bases attrs
      in type_3 name bases snake_attrs w1)"

definition meta_function ::
  "string \<Rightarrow> pyclass list \<Rightarrow> (string \<times> attr) list \<Rightarrow> world \<Rightarrow> pyclass result" where
  "meta_function name bases attrs w =
     (let w1 = print ''Calling meta_function'' w in type_3 name bases attrs w1)"

text \<open>
  The class statement \<^verbatim>\<open>class name(*bases, metaclass=..., **kwds): body\<close>, given
  the namespace the body leaves. A function as metaclass is called with the
  name, the bases and the namespace by position, and the keywords. Otherwise
  the metaclass is the one given, or that of the first base, or \<^verbatim>\<open>type\<close>; the
  most derived metaclass is found, its \<^verbatim>\<open>__prepare__\<close> runs, and it is called:
  its \<^verbatim>\<open>__new__\<close>, then its \<^verbatim>\<open>__init__\<close>.
\<close>

datatype meta_decl = NoMeta | MetaType metaclass | Meta_camel_to_snake_case | Meta_meta_function

definition class_stmt ::
  "meta_decl \<Rightarrow> string \<Rightarrow> pyclass list \<Rightarrow> (string \<times> attr) list \<Rightarrow> (string \<times> pyval) list
     \<Rightarrow> world \<Rightarrow> pyclass result" where
  "class_stmt decl name bases body kwds w =
     (case decl of
        Meta_camel_to_snake_case \<Rightarrow>
          (case bind_positional ''camel_to_snake_case'' [''name'', ''bases'', ''attrs''] False kwds of
             Some e \<Rightarrow> (Inl e, w)
           | None \<Rightarrow> camel_to_snake_case name bases body w)
      | Meta_meta_function \<Rightarrow>
          (case bind_positional ''meta_function'' [''name'', ''bases'', ''attrs''] False kwds of
             Some e \<Rightarrow> (Inl e, w)
           | None \<Rightarrow> meta_function name bases body w)
      | _ \<Rightarrow>
          (let meta = (case decl of MetaType m \<Rightarrow> m
                       | _ \<Rightarrow> (case bases of [] \<Rightarrow> Type | b # bs \<Rightarrow> c_meta b))
           in case calculate_metaclass meta bases of
                Inl e \<Rightarrow> (Inl e, w)
              | Inr winner \<Rightarrow>
                  (case (if winner = MyMeta then MyMeta_prepare winner name bases kwds w
                         else (Inr (), w)) of
                     (Inl e, w1) \<Rightarrow> (Inl e, w1)
                   | (Inr u, w1) \<Rightarrow>
                       (case meta_new winner name bases body kwds w1 of
                          (Inl e, w2) \<Rightarrow> (Inl e, w2)
                        | (Inr cls, w2) \<Rightarrow>
                            (case meta_init winner cls name bases body kwds w2 of
                               (Inl e, w3) \<Rightarrow> (Inl e, w3)
                             | (Inr u, w3) \<Rightarrow> (Inr cls, w3))))))"

section \<open>Binding arguments to parameters\<close>

text \<open>
  A call of a function \<^verbatim>\<open>def f(recv, p1, ..., pn)\<close>, some parameters with
  defaults, binds the positional arguments from the left, then the keyword
  arguments in their order, and raises \<^verbatim>\<open>TypeError\<close> for an unknown keyword, a
  parameter given twice, too many positional arguments or a missing one, in
  this order. The receiver (\<^verbatim>\<open>cls\<close> or \<^verbatim>\<open>self\<close>) is always given; its entry in
  the bound names holds no value of interest.
\<close>

fun bind_kwargs ::
  "string \<Rightarrow> string list \<Rightarrow> (string \<times> pyval) list \<Rightarrow> (string \<times> pyval) list
     \<Rightarrow> error + (string \<times> pyval) list" where
  "bind_kwargs fname names bound [] = Inr bound"
| "bind_kwargs fname names bound ((k, v) # kwargs) =
     (if k \<notin> set names then Inl (unexpected_keyword fname k)
      else if dict_has bound k then Inl (multiple_values fname k)
      else bind_kwargs fname names (bound @ [(k, v)]) kwargs)"

definition too_many_positional :: "string \<Rightarrow> nat \<Rightarrow> nat \<Rightarrow> nat \<Rightarrow> error" where
  "too_many_positional fname argcount defcount given =
     TypeError (fname @ ''() takes ''
       @ (if defcount \<noteq> 0 then ''from '' @ dec_nat (argcount - defcount) @ '' to '' @ dec_nat argcount
          else dec_nat argcount)
       @ '' positional argument'' @ (if defcount \<noteq> 0 \<or> argcount \<noteq> 1 then ''s'' else [])
       @ '' but '' @ dec_nat given @ (if given = 1 then '' was'' else '' were'') @ '' given'')"

definition format_missing :: "string \<Rightarrow> string list \<Rightarrow> error" where
  "format_missing fname names =
     (let n = length names;
          rs = map repr_str names;
          name_str =
            (if n = 1 then rs ! 0
             else if n = 2 then rs ! 0 @ '' and '' @ rs ! 1
             else join '', '' (take (n - 2) rs) @ '', '' @ rs ! (n - 2) @ '', and '' @ rs ! (n - 1))
      in TypeError (fname @ ''() missing '' @ dec_nat n @ '' required positional argument''
                    @ (if n = 1 then [] else ''s'') @ '': '' @ name_str))"

definition bind ::
  "string \<Rightarrow> string \<Rightarrow> string list \<Rightarrow> (string \<times> pyval) list \<Rightarrow> pyval list
     \<Rightarrow> (string \<times> pyval) list \<Rightarrow> error + (string \<times> pyval) list" where
  "bind fname recv params defaults args kwargs =
     (case bind_kwargs fname (recv # params) ((recv, PyNone) # zip params args) kwargs of
        Inl e \<Rightarrow> Inl e
      | Inr bound \<Rightarrow>
          (if length args > length params
           then Inl (too_many_positional fname (Suc (length params)) (length defaults)
                       (Suc (length args)))
           else (let missing = filter (\<lambda>p. \<not> dict_has bound p \<and> \<not> dict_has defaults p) params
                 in if missing \<noteq> [] then Inl (format_missing fname missing)
                    else Inr (bound @ defaults))))"

definition arg :: "(string \<times> pyval) list \<Rightarrow> string \<Rightarrow> pyval" where
  \<comment> \<open>the value of a parameter after binding: the bound one, else the default\<close>
  "arg bound p = (case map_of bound p of Some v \<Rightarrow> v | None \<Rightarrow> PyNone)"

section \<open>Creating instances\<close>

text \<open>
  \<open>resolve_new\<close> and \<open>resolve_init\<close> tell which constructor of the notebook
  the lookup of \<^verbatim>\<open>__new__\<close> and of \<^verbatim>\<open>__init__\<close> on a class finds; \<open>None\<close> stands
  for the ones of \<^verbatim>\<open>object\<close>. A namespace that binds these two names to
  anything else is outside the model.
\<close>

definition resolve_new :: "pyclass \<Rightarrow> func option" where
  "resolve_new cls =
     (case lookup cls ''__new__'' of
        Some (Func f b) \<Rightarrow> (if f = F_MyClass1_new \<or> f = F_MyClass2_new then Some f else None)
      | _ \<Rightarrow> None)"

definition resolve_init :: "pyclass \<Rightarrow> func option" where
  "resolve_init cls =
     (case lookup cls ''__init__'' of
        Some (Func f b) \<Rightarrow>
          (if f = F_Car_init \<or> f = F_MyClass1_init \<or> f = F_MyClass2_init then Some f else None)
      | _ \<Rightarrow> None)"

text \<open>
  \<^verbatim>\<open>object.__new__(cls, *args, **kwargs)\<close> of CPython 3.6: it refuses arguments
  unless the class overrides \<^verbatim>\<open>__init__\<close> and not \<^verbatim>\<open>__new__\<close>; it refuses a class
  whose \<^verbatim>\<open>__abstractmethods__\<close> is not empty; else it allocates the instance.
\<close>

definition object_new ::
  "pyclass \<Rightarrow> pyval list \<Rightarrow> (string \<times> pyval) list \<Rightarrow> world \<Rightarrow> nat result" where
  "object_new cls args kwargs w =
     (if (args \<noteq> [] \<or> kwargs \<noteq> []) \<and> (resolve_init cls = None \<or> resolve_new cls \<noteq> None)
      then (Inl (TypeError ''object() takes no parameters''), w)
      else if c_abstract cls \<noteq> []
      then (Inl (TypeError (''Can'' @ [CHR 0x27] @ ''t instantiate abstract class '' @ c_name cls
                            @ '' with abstract methods '' @ join '', '' (sort (c_abstract cls)))), w)
      else (let (self, w1) = alloc w
            in (Inr self, w1\<lparr>heap := heap w1 @ [(self, \<lparr>o_class = c_id cls, o_attrs = []\<rparr>)]\<rparr>)))"

definition object_init ::
  "pyclass \<Rightarrow> nat \<Rightarrow> pyval list \<Rightarrow> (string \<times> pyval) list \<Rightarrow> world \<Rightarrow> unit result" where
  "object_init cls self args kwargs w =
     (if (args \<noteq> [] \<or> kwargs \<noteq> []) \<and> (resolve_new cls = None \<or> resolve_init cls \<noteq> None)
      then (Inl (TypeError ''object.__init__() takes no parameters''), w)
      else (Inr (), w))"

text \<open>
  \<^verbatim>\<open>
  class Car(Vehicle):
      def __init__(self, make, model, color):
          self.make = make
          self.model = model
          self.color = color
  \<close>
\<close>

definition Car_init ::
  "pyclass \<Rightarrow> nat \<Rightarrow> pyval list \<Rightarrow> (string \<times> pyval) list \<Rightarrow> world \<Rightarrow> unit result" where
  "Car_init cls self args kwargs w =
     (case bind ''__init__'' ''self'' [''make'', ''model'', ''color''] [] args kwargs of
        Inl e \<Rightarrow> (Inl e, w)
      | Inr b \<Rightarrow>
          (Inr (), setattr self ''color'' (arg b ''color'')
                     (setattr self ''model'' (arg b ''model'')
                        (setattr self ''make'' (arg b ''make'') w))))"

text \<open>
  \<^verbatim>\<open>
  class MyClass1(metaclass=meta_function):
      def __new__(cls, *args, **kwargs):
          print('MyClass1.__new__({}, *{}, **{})'.format(cls, args, kwargs))
          return super().__new__(cls)
      def __init__(self, *args, **kwargs):
          print('MyClass1.__init__({}, *{}, **{})'.format(self, args, kwargs))
  \<close>
  The class and the instance are given by position, so a keyword argument
  named \<^verbatim>\<open>cls\<close> gives the parameter \<^verbatim>\<open>cls\<close> of \<^verbatim>\<open>__new__\<close> a second value, and
  one named \<^verbatim>\<open>self\<close> does so for \<^verbatim>\<open>__init__\<close>: the call raises before the body
  runs. Every other keyword goes into \<^verbatim>\<open>**kwargs\<close>.
\<close>

definition MyClass1_new ::
  "pyclass \<Rightarrow> pyval list \<Rightarrow> (string \<times> pyval) list \<Rightarrow> world \<Rightarrow> nat result" where
  "MyClass1_new cls args kwargs w =
     (case bind_positional ''__new__'' [''cls''] True kwargs of
        Some e \<Rightarrow> (Inl e, w)
      | None \<Rightarrow>
          (let w1 = print (''MyClass1.__new__('' @ str_class cls @ '', *''
                           @ repr_tuple (map repr_val args) @ '', **'' @ repr_dict kwargs
                           @ '')'') w
           in object_new cls [] [] w1))"

definition MyClass1_init ::
  "pyclass \<Rightarrow> nat \<Rightarrow> pyval list \<Rightarrow> (string \<times> pyval) list \<Rightarrow> world \<Rightarrow> unit result" where
  "MyClass1_init cls self args kwargs w =
     (case bind_positional ''__init__'' [''self''] True kwargs of
        Some e \<Rightarrow> (Inl e, w)
      | None \<Rightarrow>
          (Inr (), print (''MyClass1.__init__('' @ object_repr w cls self @ '', *''
                          @ repr_tuple (map repr_val args) @ '', **'' @ repr_dict kwargs
                          @ '')'') w))"

text \<open>
  \<^verbatim>\<open>
  class MyClass2(metaclass=MyMeta, extra=1):
      def __new__(cls, s, a=0, b=0):
          print("MyClass2.__new__(cls={}, s={}, a={}, b={})".format(cls, s, a, b))
          return super().__new__(cls)
      def __init__(self, s, a=0, b=0):
          print("MyClass2.__init__(self={}, s={}, a={}, b={})".format(self, s, a, b))
          self.a, self.b = a, b
  \<close>
\<close>

definition MyClass2_new ::
  "pyclass \<Rightarrow> pyval list \<Rightarrow> (string \<times> pyval) list \<Rightarrow> world \<Rightarrow> nat result" where
  "MyClass2_new cls args kwargs w =
     (case bind ''__new__'' ''cls'' [''s'', ''a'', ''b''] [(''a'', PyInt 0), (''b'', PyInt 0)]
             args kwargs of
        Inl e \<Rightarrow> (Inl e, w)
      | Inr b \<Rightarrow>
          (let w1 = print (''MyClass2.__new__(cls='' @ str_class cls @ '', s='' @ str_val (arg b ''s'')
                           @ '', a='' @ str_val (arg b ''a'') @ '', b='' @ str_val (arg b ''b'')
                           @ '')'') w
           in object_new cls [] [] w1))"

definition MyClass2_init ::
  "pyclass \<Rightarrow> nat \<Rightarrow> pyval list \<Rightarrow> (string \<times> pyval) list \<Rightarrow> world \<Rightarrow> unit result" where
  "MyClass2_init cls self args kwargs w =
     (case bind ''__init__'' ''self'' [''s'', ''a'', ''b''] [(''a'', PyInt 0), (''b'', PyInt 0)]
             args kwargs of
        Inl e \<Rightarrow> (Inl e, w)
      | Inr b \<Rightarrow>
          (let w1 = print (''MyClass2.__init__(self='' @ object_repr w cls self
                           @ '', s='' @ str_val (arg b ''s'') @ '', a='' @ str_val (arg b ''a'')
                           @ '', b='' @ str_val (arg b ''b'') @ '')'') w
           in (Inr (), setattr self ''b'' (arg b ''b'') (setattr self ''a'' (arg b ''a'') w1))))"

text \<open>
  \<^verbatim>\<open>type.__call__(cls, *args, **kwargs)\<close> calls the \<^verbatim>\<open>__new__\<close> of the class and
  then the \<^verbatim>\<open>__init__\<close> of the class on the new instance, with the same
  arguments, and returns the instance. (Every \<^verbatim>\<open>__new__\<close> of the notebook
  returns an instance of the class it is given.)
\<close>

definition call_new ::
  "pyclass \<Rightarrow> pyval list \<Rightarrow> (string \<times> pyval) list \<Rightarrow> world \<Rightarrow> nat result" where
  "call_new cls args kwargs w =
     (let w0 = log_event (NewCalled (c_id cls)) w
      in if resolve_new cls = Some F_MyClass1_new then MyClass1_new cls args kwargs w0
         else if resolve_new cls = Some F_MyClass2_new then MyClass2_new cls args kwargs w0
         else object_new cls args kwargs w0)"

definition call_init ::
  "pyclass \<Rightarrow> nat \<Rightarrow> pyval list \<Rightarrow> (string \<times> pyval) list \<Rightarrow> world \<Rightarrow> unit result" where
  "call_init cls self args kwargs w =
     (let w0 = log_event (InitCalled (c_id cls)) w
      in if resolve_init cls = Some F_Car_init then Car_init cls self args kwargs w0
         else if resolve_init cls = Some F_MyClass1_init then MyClass1_init cls self args kwargs w0
         else if resolve_init cls = Some F_MyClass2_init then MyClass2_init cls self args kwargs w0
         else object_init cls self args kwargs w0)"

definition type_call ::
  "pyclass \<Rightarrow> pyval list \<Rightarrow> (string \<times> pyval) list \<Rightarrow> world \<Rightarrow> nat result" where
  "type_call cls args kwargs w =
     (case call_new cls args kwargs w of
        (Inl e, w1) \<Rightarrow> (Inl e, w1)
      | (Inr self, w1) \<Rightarrow>
          (case call_init cls self args kwargs w1 of
             (Inl e, w2) \<Rightarrow> (Inl e, w2)
           | (Inr u, w2) \<Rightarrow> (Inr self, w2)))"

text \<open>
  \<^verbatim>\<open>
  class MyMeta(type):
      def __call__(cls, *args, **kwargs):
          print("MyMeta.__call__(cls={}, args={}, kwargs={}".format(cls, args, kwargs))
          self = super().__call__(*args, **kwargs)
          print("MyMeta.__call__ return: ", self)
          return (self)
  \<close>
  The call \<^verbatim>\<open>cls(*args, **kwargs)\<close> gives the class by position to the parameter
  \<^verbatim>\<open>cls\<close> of \<^verbatim>\<open>__call__\<close>; a keyword argument named \<^verbatim>\<open>cls\<close> gives it a second
  value, and the call raises before the body runs.
\<close>

definition MyMeta_call ::
  "pyclass \<Rightarrow> pyval list \<Rightarrow> (string \<times> pyval) list \<Rightarrow> world \<Rightarrow> nat result" where
  "MyMeta_call cls args kwargs w =
     (case bind_positional ''__call__'' [''cls''] True kwargs of
        Some e \<Rightarrow> (Inl e, w)
      | None \<Rightarrow>
          (let w1 = print (''MyMeta.__call__(cls='' @ str_class cls @ '', args=''
                           @ repr_tuple (map repr_val args) @ '', kwargs='' @ repr_dict kwargs) w
           in case type_call cls args kwargs w1 of
                (Inl e, w2) \<Rightarrow> (Inl e, w2)
              | (Inr self, w2) \<Rightarrow>
                  (Inr self,
                   print (''MyMeta.__call__ return: '' @ '' '' @ object_repr w2 cls self) w2)))"

text \<open>
  \<^verbatim>\<open>
  class Singleton(type):
      _instances = {}
      def __call__(cls, *args, **kwargs):
          if cls not in cls._instances:
              cls._instances[cls] = super().__call__(*args, **kwargs)
          return cls._instances[cls]
  \<close>
  The lookup \<^verbatim>\<open>cls._instances\<close> finds the dictionary of the metaclass: no class
  body of the notebook binds the name \<^verbatim>\<open>_instances\<close>. The dictionary is keyed by
  the class object, that is, by its identity. As for \<^verbatim>\<open>MyMeta.__call__\<close>, a
  keyword argument named \<^verbatim>\<open>cls\<close> gives the parameter \<^verbatim>\<open>cls\<close> a second value,
  and the call raises before the body runs.
\<close>

definition Singleton_call ::
  "pyclass \<Rightarrow> pyval list \<Rightarrow> (string \<times> pyval) list \<Rightarrow> world \<Rightarrow> nat result" where
  "Singleton_call cls args kwargs w =
     (case bind_positional ''__call__'' [''cls''] True kwargs of
        Some e \<Rightarrow> (Inl e, w)
      | None \<Rightarrow>
          (case (if \<not> dict_has (instances w) (c_id cls)
                 then (case type_call cls args kwargs w of
                         (Inl e, w1) \<Rightarrow> (Inl e, w1)
                       | (Inr self, w1) \<Rightarrow>
                           (Inr (), w1\<lparr>instances := dict_set (c_id cls) self (instances w1)\<rparr>))
                 else (Inr (), w)) of
             (Inl e, w2) \<Rightarrow> (Inl e, w2)
           | (Inr u, w2) \<Rightarrow>
               (case map_of (instances w2) (c_id cls) of
                  Some self \<Rightarrow> (Inr self, w2)
                | None \<Rightarrow> (Inl (KeyError (str_class cls)), w2))))"

definition instantiate ::
  "pyclass \<Rightarrow> pyval list \<Rightarrow> (string \<times> pyval) list \<Rightarrow> world \<Rightarrow> nat result" where
  \<comment> \<open>the call \<^verbatim>\<open>cls(*args, **kwargs)\<close>: the \<^verbatim>\<open>__call__\<close> of the metaclass of \<open>cls\<close>\<close>
  "instantiate cls args kwargs w =
     (case c_meta cls of
        MyMeta \<Rightarrow> MyMeta_call cls args kwargs w
      | Singleton \<Rightarrow> Singleton_call cls args kwargs w
      | SnakeSingleton \<Rightarrow> Singleton_call cls args kwargs w
      | _ \<Rightarrow> type_call cls args kwargs w)"

section \<open>The cells of the notebook\<close>

text \<open>
  Each class body is given by the namespace it leaves: \<^verbatim>\<open>__module__\<close> and
  \<^verbatim>\<open>__qualname__\<close>, then the functions in the order of the body, and
  \<^verbatim>\<open>__classcell__\<close> where a method uses \<^verbatim>\<open>super()\<close>.
\<close>

definition class_body :: "string \<Rightarrow> (string \<times> attr) list \<Rightarrow> (string \<times> attr) list" where
  "class_body name defs =
     [(''__module__'', Val (PyStr ''__main__'')), (''__qualname__'', Val (PyStr name))] @ defs"

definition Vehicle_body :: "(string \<times> attr) list" where
  "Vehicle_body =
     class_body ''Vehicle'' [(''change_gear'', Func F_pass True), (''start_engine'', Func F_pass True)]"

definition Car_body :: "(string \<times> attr) list" where
  "Car_body = class_body ''Car'' [(''__init__'', Func F_Car_init False)]"

definition MyVector_body :: "(string \<times> attr) list" where
  "MyVector_body =
     class_body ''MyVector''
       [(''addToVector'', Func F_pass False), (''subtractFromVector'', Func F_pass False),
        (''calculateDotProduct'', Func F_pass False), (''calculateCrossProduct'', Func F_pass False),
        (''calculateTripleProduct'', Func F_pass False)]"

definition MyClass1_body :: "(string \<times> attr) list" where
  "MyClass1_body =
     class_body ''MyClass1''
       [(''__new__'', Func F_MyClass1_new False), (''__init__'', Func F_MyClass1_init False),
        (''__classcell__'', Slot)]"

definition MyClass2_body :: "(string \<times> attr) list" where
  "MyClass2_body =
     class_body ''MyClass2''
       [(''__new__'', Func F_MyClass2_new False), (''__init__'', Func F_MyClass2_init False),
        (''__classcell__'', Slot)]"

definition print_public_names :: "pyclass \<Rightarrow> world \<Rightarrow> world" where
  \<comment> \<open>\<^verbatim>\<open>print([a for a in dir(cls) if not a.startswith('__')])\<close>\<close>
  "print_public_names cls w =
     print (repr_list (map repr_str (filter (\<lambda>a. \<not> startswith a ''__'') (dir_class cls)))) w"

text \<open>
  \<^verbatim>\<open>
  class Vehicle(metaclass=ABCMeta): ...
  class Car(Vehicle): ...
  try:
      car = Car('Toyota', 'Avensis', 'silver')
  except TypeError as e:
      print(e)
  \<close>
\<close>

definition define_Vehicle :: "world \<Rightarrow> pyclass result" where
  "define_Vehicle w = class_stmt (MetaType ABCMeta) ''Vehicle'' [] Vehicle_body [] w"

definition define_Car :: "pyclass \<Rightarrow> world \<Rightarrow> pyclass result" where
  "define_Car vehicle w = class_stmt NoMeta ''Car'' [vehicle] Car_body [] w"

definition new_Car :: "pyclass \<Rightarrow> world \<Rightarrow> nat result" where
  "new_Car car w = instantiate car [PyStr ''Toyota'', PyStr ''Avensis'', PyStr ''silver''] [] w"

definition try_new_Car :: "pyclass \<Rightarrow> world \<Rightarrow> (nat option) result" where
  "try_new_Car car w =
     (case new_Car car w of
        (Inl (TypeError e), w1) \<Rightarrow> (Inr None, print e w1)
      | (Inl e, w1) \<Rightarrow> (Inl e, w1)
      | (Inr self, w1) \<Rightarrow> (Inr (Some self), w1))"

definition cell_abc :: "world \<Rightarrow> (nat option) result" where
  "cell_abc w =
     (case define_Vehicle w of
        (Inl e, w1) \<Rightarrow> (Inl e, w1)
      | (Inr vehicle, w1) \<Rightarrow>
          (case define_Car vehicle w1 of
             (Inl e, w2) \<Rightarrow> (Inl e, w2)
           | (Inr car, w2) \<Rightarrow> try_new_Car car w2))"

text \<open>
  The three cells that define \<^verbatim>\<open>MyVector\<close> and print its public names: with the
  function \<^verbatim>\<open>camel_to_snake_case\<close>, with the class \<^verbatim>\<open>CamelToSnake\<close>, and with
  \<^verbatim>\<open>SnakeSingleton\<close>. The last cell first defines \<^verbatim>\<open>Singleton\<close>, whose body binds
  \<^verbatim>\<open>_instances\<close> to a new empty dictionary, and ends with
  \<^verbatim>\<open>v1 = MyVector(); v2 = MyVector(); print(v1 is v2)\<close>.
\<close>

definition define_MyVector :: "meta_decl \<Rightarrow> world \<Rightarrow> pyclass result" where
  "define_MyVector decl w = class_stmt decl ''MyVector'' [] MyVector_body [] w"

definition cell_function_metaclass :: "world \<Rightarrow> pyclass result" where
  "cell_function_metaclass w =
     (case define_MyVector Meta_camel_to_snake_case w of
        (Inl e, w1) \<Rightarrow> (Inl e, w1)
      | (Inr cls, w1) \<Rightarrow> (Inr cls, print_public_names cls w1))"

definition cell_class_metaclass :: "world \<Rightarrow> pyclass result" where
  "cell_class_metaclass w =
     (case define_MyVector (MetaType CamelToSnake) w of
        (Inl e, w1) \<Rightarrow> (Inl e, w1)
      | (Inr cls, w1) \<Rightarrow> (Inr cls, print_public_names cls w1))"

definition str_bool :: "bool \<Rightarrow> string" where
  "str_bool b = (if b then ''True'' else ''False'')"

definition cell_singleton :: "world \<Rightarrow> (pyclass \<times> nat \<times> nat) result" where
  "cell_singleton w =
     (let w0 = w\<lparr>instances := []\<rparr>
      in case define_MyVector (MetaType SnakeSingleton) w0 of
           (Inl e, w1) \<Rightarrow> (Inl e, w1)
         | (Inr cls, w1) \<Rightarrow>
             (let w2 = print_public_names cls w1
              in case instantiate cls [] [] w2 of
                   (Inl e, w3) \<Rightarrow> (Inl e, w3)
                 | (Inr v1, w3) \<Rightarrow>
                     (case instantiate cls [] [] w3 of
                        (Inl e, w4) \<Rightarrow> (Inl e, w4)
                      | (Inr v2, w4) \<Rightarrow> (Inr (cls, v1, v2), print (str_bool (v1 = v2)) w4))))"

text \<open>
  The cells of \<^verbatim>\<open>MyClass1\<close> and \<^verbatim>\<open>MyClass2\<close>: the definition, and the call
  \<^verbatim>\<open>a = MyClass1(1, 2, 3, x='ex', y='why')\<close>, respectively
  \<^verbatim>\<open>a = MyClass2('hello', a=1, b=2); print("MyClass instance created: ", a)\<close>.
\<close>

definition define_MyClass1 :: "world \<Rightarrow> pyclass result" where
  "define_MyClass1 w = class_stmt Meta_meta_function ''MyClass1'' [] MyClass1_body [] w"

definition new_MyClass1 :: "pyclass \<Rightarrow> world \<Rightarrow> nat result" where
  "new_MyClass1 cls w =
     instantiate cls [PyInt 1, PyInt 2, PyInt 3] [(''x'', PyStr ''ex''), (''y'', PyStr ''why'')] w"

definition define_MyClass2 :: "world \<Rightarrow> pyclass result" where
  "define_MyClass2 w =
     (case class_stmt (MetaType MyMeta) ''MyClass2'' [] MyClass2_body [(''extra'', PyInt 1)] w of
        (Inl e, w1) \<Rightarrow> (Inl e, w1)
      | (Inr cls, w1) \<Rightarrow> (Inr cls, print ''Class MyClass created'' w1))"

definition new_MyClass2 :: "pyclass \<Rightarrow> world \<Rightarrow> nat result" where
  "new_MyClass2 cls w =
     (case instantiate cls [PyStr ''hello''] [(''a'', PyInt 1), (''b'', PyInt 2)] w of
        (Inl e, w1) \<Rightarrow> (Inl e, w1)
      | (Inr a, w1) \<Rightarrow> (Inr a, print (''MyClass instance created: '' @ '' '' @ object_repr w1 cls a) w1))"

text \<open>
  A state to run cells in: nothing created, nothing printed. The recorded run
  of the notebook wrote addresses as \<^verbatim>\<open>0x\<close> and sixteen uppercase hexadecimal
  digits.
\<close>

fun hex_upper :: "nat \<Rightarrow> nat \<Rightarrow> string" where
  \<comment> \<open>the last \<open>k\<close> hexadecimal digits of \<open>n\<close>, uppercase\<close>
  "hex_upper 0 n = []"
| "hex_upper (Suc k) n = hex_upper k (n div 16) @ [''0123456789ABCDEF'' ! (n mod 16)]"

definition ptr16 :: "nat \<Rightarrow> string" where
  "ptr16 n = ''0x'' @ hex_upper 16 n"

definition world0 :: "nat \<Rightarrow> world" where
  "world0 first_id =
     \<lparr>ptr_fmt = ptr16, next_id = first_id, heap = [], instances = [], ctor_log = [], stdout = []\<rparr>"

section \<open>The classes of the notebook, and runs of calls\<close>

text \<open>
  The class objects that the class statements of the notebook make, given the
  identity each receives: \<^verbatim>\<open>MyVector\<close> under a metaclass, with the namespace
  the metaclass passes on; \<^verbatim>\<open>MyClass1\<close>; \<^verbatim>\<open>MyClass2\<close>; \<^verbatim>\<open>Vehicle\<close> and \<^verbatim>\<open>Car\<close>.
  \<open>snake_MyVector\<close> is the namespace of \<^verbatim>\<open>MyVector\<close> with the five method
  names in snake case.
\<close>

definition snake_MyVector :: "(string \<times> attr) list" where
  "snake_MyVector =
     class_body ''MyVector''
       [(''add_to_vector'', Func F_pass False), (''subtract_from_vector'', Func F_pass False),
        (''calculate_dot_product'', Func F_pass False), (''calculate_cross_product'', Func F_pass False),
        (''calculate_triple_product'', Func F_pass False)]"

definition MyVector_class :: "metaclass \<Rightarrow> nat \<Rightarrow> pyclass" where
  "MyVector_class m i = make_class i m ''MyVector'' [] snake_MyVector"

definition MyClass1_class :: "nat \<Rightarrow> pyclass" where
  "MyClass1_class i = make_class i Type ''MyClass1'' [] MyClass1_body"

definition MyClass2_class :: "nat \<Rightarrow> pyclass" where
  "MyClass2_class i = make_class i MyMeta ''MyClass2'' [] MyClass2_body"

definition Vehicle_class :: "nat \<Rightarrow> pyclass" where
  "Vehicle_class i = abc_setup (make_class i ABCMeta ''Vehicle'' [] Vehicle_body) [] Vehicle_body"

definition Car_class :: "nat \<Rightarrow> nat \<Rightarrow> pyclass" where
  \<comment> \<open>\<^verbatim>\<open>Car\<close> with identity \<open>j\<close>, derived from the \<^verbatim>\<open>Vehicle\<close> with identity \<open>i\<close>\<close>
  "Car_class i j =
     abc_setup (make_class j ABCMeta ''Car'' [Vehicle_class i] Car_body) [Vehicle_class i] Car_body"

definition is_singleton :: "pyclass \<Rightarrow> bool" where
  \<comment> \<open>the metaclass of the class is \<^verbatim>\<open>Singleton\<close> or derives from it\<close>
  "is_singleton cls = meta_subtype (c_meta cls) Singleton"

text \<open>
  A run is a sequence of calls \<^verbatim>\<open>cls(*args, **kwargs)\<close>, of any classes with any
  arguments; what a call returns or raises is dropped.
\<close>

fun run :: "(pyclass \<times> pyval list \<times> (string \<times> pyval) list) list \<Rightarrow> world \<Rightarrow> world" where
  "run [] w = w"
| "run ((cls, args, kwargs) # calls) w = run calls (snd (instantiate cls args kwargs w))"

section \<open>Properties of \<^verbatim>\<open>convert\<close>\<close>

lemma re_sub1_no_AZ: "list_all (\<lambda>c. \<not> cp_AZ c) s \<Longrightarrow> re_sub1 s = s"
  by (induction s rule: re_sub1.induct) simp_all

lemma re_sub2_no_AZ: "list_all (\<lambda>c. \<not> cp_AZ c) s \<Longrightarrow> re_sub2 s = s"
  by (induction s rule: re_sub2.induct) simp_all

lemma re_sub1_set: "set (re_sub1 s) \<subseteq> insert 95 (set s)"
proof (induction s rule: re_sub1.induct)
  case (1 c u l rest)
  show ?case
  proof (cases "cp_dot c \<and> cp_AZ u \<and> cp_az l")
    case True
    have t: "set (takeWhile cp_az (l # rest)) \<subseteq> set (l # rest)"
      by (auto dest: set_takeWhileD)
    have d: "set (dropWhile cp_az (l # rest)) \<subseteq> set (l # rest)"
      by (auto dest: set_dropWhileD)
    from 1(1) True
    have "set (re_sub1 (dropWhile cp_az (l # rest))) \<subseteq> insert 95 (set (dropWhile cp_az (l # rest)))"
      by simp
    with d have r: "set (re_sub1 (dropWhile cp_az (l # rest))) \<subseteq> insert 95 (set (l # rest))"
      by blast
    have "re_sub1 (c # u # l # rest) =
            c # 95 # u # takeWhile cp_az (l # rest) @ re_sub1 (dropWhile cp_az (l # rest))"
      using True by simp
    then have "set (re_sub1 (c # u # l # rest)) =
            insert c (insert 95 (insert u (set (takeWhile cp_az (l # rest))
              \<union> set (re_sub1 (dropWhile cp_az (l # rest))))))"
      by (simp only: list.set set_append)
    with t r show ?thesis
      by auto
  next
    case False
    with 1(2) have "set (re_sub1 (u # l # rest)) \<subseteq> insert 95 (set (u # l # rest))"
      by blast
    moreover have "re_sub1 (c # u # l # rest) = c # re_sub1 (u # l # rest)"
      by (simp only: re_sub1.simps False if_False)
    ultimately show ?thesis
      by auto
  qed
qed simp_all

lemma re_sub2_set: "set (re_sub2 s) \<subseteq> insert 95 (set s)"
  by (induction s rule: re_sub2.induct) auto

lemma re_sub_below:
  assumes "list_all (\<lambda>c. c < 256) s"
  shows "list_all (\<lambda>c. c < 256) (re_sub2 (re_sub1 s))"
proof -
  have "set (re_sub2 (re_sub1 s)) \<subseteq> insert 95 (insert 95 (set s))"
    using re_sub2_set [of "re_sub1 s"] re_sub1_set [of s] by blast
  with assms show ?thesis
    by (auto simp add: list_all_iff)
qed

lemma cp_AZ_upper: "cp_AZ c \<Longrightarrow> cp_upper c"
  by (simp add: cp_AZ_def cp_upper_def)

lemma cp_lower_below: "c < 256 \<Longrightarrow> cp_lower c < 256"
  by (simp add: cp_lower_def)

lemma cp_lower_not_upper: "c < 256 \<Longrightarrow> \<not> cp_upper (cp_lower c)"
  by (auto simp add: cp_lower_def cp_upper_def)

lemma cp_lower_id: "\<not> cp_upper c \<Longrightarrow> cp_lower c = c"
  by (auto simp add: cp_lower_def cp_upper_def)

lemma convert_u_below:
  "list_all (\<lambda>c. c < 256) s \<Longrightarrow> convert_u t s = map cp_lower (re_sub2 (re_sub1 s))"
  by (simp add: convert_u_def str_lower_def re_sub_below)

lemma convert_u_below_result:
  assumes "list_all (\<lambda>c. c < 256) s"
  shows "list_all (\<lambda>c. c < 256) (convert_u t s) \<and> list_all (\<lambda>c. \<not> is_upper t c) (convert_u t s)"
proof -
  from assms have b: "list_all (\<lambda>c. c < 256) (re_sub2 (re_sub1 s))"
    by (rule re_sub_below)
  then have "list_all (\<lambda>c. c < 256) (map cp_lower (re_sub2 (re_sub1 s)))
             \<and> list_all (\<lambda>c. \<not> is_upper t c) (map cp_lower (re_sub2 (re_sub1 s)))"
    by (simp add: list_all_iff is_upper_def cp_lower_below cp_lower_not_upper)
  with assms show ?thesis
    by (simp add: convert_u_below)
qed

lemma convert_u_below_id:
  assumes b: "list_all (\<lambda>c. c < 256) s" and u: "list_all (\<lambda>c. \<not> is_upper t c) s"
  shows "convert_u t s = s"
proof -
  from b u have n: "list_all (\<lambda>c. \<not> cp_upper c) s"
    by (auto simp add: list_all_iff is_upper_def)
  then have "list_all (\<lambda>c. \<not> cp_AZ c) s"
    using cp_AZ_upper by (auto simp add: list_all_iff)
  then have "re_sub2 (re_sub1 s) = s"
    by (simp add: re_sub1_no_AZ re_sub2_no_AZ)
  moreover from n have "map cp_lower s = s"
    by (simp add: list_all_iff cp_lower_id map_idI)
  ultimately show ?thesis
    using b by (simp add: convert_u_below)
qed

lemma convert_u_no_AZ:
  "list_all (\<lambda>c. \<not> cp_AZ c) s \<Longrightarrow> convert_u t s = str_lower t s"
  by (simp add: convert_u_def re_sub1_no_AZ re_sub2_no_AZ)

lemma convert_refines: "map of_char (convert s) = convert_u t (map of_char s)"
proof -
  have b: "list_all (\<lambda>c. c < 256) (map of_char s :: nat list)"
    by (simp add: list_all_iff)
  then have r: "list_all (\<lambda>c. c < 256) (convert_u t (map of_char s))"
    using convert_u_below_result by blast
  from b have c: "convert_u t (map of_char s) = map cp_lower (re_sub2 (re_sub1 (map of_char s)))"
    by (rule convert_u_below)
  have "map of_char (map char_of xs :: string) = xs" if "list_all (\<lambda>c. c < 256) xs" for xs :: "nat list"
    using that by (induction xs) simp_all
  from this [OF r] show ?thesis
    by (simp add: convert_def c Let_def)
qed

text \<open>
  C9, as the code has it. On a string with every code point below 256,
  \<^verbatim>\<open>convert\<close> is idempotent, it is the identity if the string holds no uppercase
  letter, and its result holds no uppercase letter. On any string, \<^verbatim>\<open>convert\<close>
  is \<^verbatim>\<open>str.lower\<close> if the string holds none of A-Z, and \<^verbatim>\<open>convert\<close> is
  idempotent provided that \<^verbatim>\<open>str.lower\<close> is idempotent and leaves none of A-Z in
  its result.
\<close>

theorem convert_u_idempotent:
  "(list_all (\<lambda>c. c < 256) s \<longrightarrow>
      convert_u t (convert_u t s) = convert_u t s
      \<and> (list_all (\<lambda>c. \<not> is_upper t c) s \<longrightarrow> convert_u t s = s)
      \<and> list_all (\<lambda>c. \<not> is_upper t c) (convert_u t s))
   \<and> (list_all (\<lambda>c. \<not> cp_AZ c) s \<longrightarrow> convert_u t s = str_lower t s)
   \<and> ((\<forall>u. str_lower t (str_lower t u) = str_lower t u)
        \<and> (\<forall>u. list_all (\<lambda>c. \<not> cp_AZ c) (str_lower t u))
      \<longrightarrow> convert_u t (convert_u t s) = convert_u t s)"
proof -
  have a: "convert_u t (convert_u t s) = convert_u t s" if "list_all (\<lambda>c. c < 256) s"
    using convert_u_below_result [OF that, of t] convert_u_below_id [of "convert_u t s" t]
    by simp
  have g: "convert_u t (convert_u t s) = convert_u t s"
    if i: "\<forall>u. str_lower t (str_lower t u) = str_lower t u"
      and n: "\<forall>u. list_all (\<lambda>c. \<not> cp_AZ c) (str_lower t u)"
  proof -
    have e: "convert_u t s = str_lower t (re_sub2 (re_sub1 s))"
      by (simp add: convert_u_def)
    with n have "list_all (\<lambda>c. \<not> cp_AZ c) (convert_u t s)"
      by simp
    then have "convert_u t (convert_u t s) = str_lower t (convert_u t s)"
      by (rule convert_u_no_AZ)
    with e i show ?thesis
      by simp
  qed
  from a g convert_u_below_id [of s t] convert_u_below_result [of s t] convert_u_no_AZ [of s t]
  show ?thesis
    by blast
qed

lemma str_lower_sample:
  "str_lower unicode_sample s = map (\<lambda>c. if c = 0x1C5 then 0x1C6 else cp_lower c) s"
  by (auto simp add: str_lower_def unicode_sample_def list_all_iff)

lemma str_lower_sample_idem:
  "str_lower unicode_sample (str_lower unicode_sample u) = str_lower unicode_sample u"
  by (simp add: str_lower_sample cp_lower_def)

lemma str_lower_sample_no_AZ:
  "list_all (\<lambda>c. \<not> cp_AZ c) (str_lower unicode_sample u)"
  by (auto simp add: str_lower_sample list_all_iff cp_lower_def cp_AZ_def)

theorem convert_u_idempotent_witness:
  "list_all (\<lambda>c. c < 256) (map of_char ''calculateDotProduct'' :: nat list)
   \<and> convert_u unicode_sample (map of_char ''calculateDotProduct'')
       = map of_char ''calculate_dot_product''
   \<and> convert_u unicode_sample (convert_u unicode_sample (map of_char ''calculateDotProduct''))
       = map of_char ''calculate_dot_product''
   \<and> list_all (\<lambda>c. \<not> is_upper unicode_sample c) (map of_char ''add_to_vector'')
   \<and> convert_u unicode_sample (map of_char ''add_to_vector'') = map of_char ''add_to_vector''
   \<and> list_all (\<lambda>c. \<not> is_upper unicode_sample c)
        (convert_u unicode_sample (map of_char ''HTTPResponse2Code''))
   \<and> list_all (\<lambda>c. \<not> cp_AZ c) [0x1C5]
   \<and> convert_u unicode_sample [0x1C5] = str_lower unicode_sample [0x1C5]
   \<and> convert_u unicode_sample [0x61, 0x42, 0x3D2] = [0x61, 0x5F, 0x62, 0x3D2]
   \<and> convert_u unicode_sample (convert_u unicode_sample [0x61, 0x42, 0x3D2])
       = [0x61, 0x5F, 0x62, 0x3D2]"
proof -
  have b1: "list_all (\<lambda>c. c < 256) (map of_char ''calculateDotProduct'' :: nat list)"
    by (simp add: list_all_iff)
  have b2: "list_all (\<lambda>c. c < 256) (map of_char ''add_to_vector'' :: nat list)"
    by (simp add: list_all_iff)
  have b3: "list_all (\<lambda>c. c < 256) (map of_char ''HTTPResponse2Code'' :: nat list)"
    by (simp add: list_all_iff)
  have c1: "convert_u unicode_sample (map of_char ''calculateDotProduct'')
              = map of_char ''calculate_dot_product''"
    by code_simp
  have u2: "list_all (\<lambda>c. \<not> is_upper unicode_sample c) (map of_char ''add_to_vector'')"
    by code_simp
  have n4: "list_all (\<lambda>c. \<not> cp_AZ c) [0x1C5]"
    by (simp add: cp_AZ_def)
  have c5: "convert_u unicode_sample [0x61, 0x42, 0x3D2] = [0x61, 0x5F, 0x62, 0x3D2]"
    by (simp add: convert_u_def str_lower_def unicode_sample_def cp_lower_def cp_AZ_def cp_az_def
        cp_az09_def cp_dot_def)
  from convert_u_idempotent [of "map of_char ''calculateDotProduct''" unicode_sample] b1 c1
  have d1: "convert_u unicode_sample (convert_u unicode_sample (map of_char ''calculateDotProduct''))
              = map of_char ''calculate_dot_product''"
    by simp
  from convert_u_idempotent [of "map of_char ''add_to_vector''" unicode_sample] b2 u2
  have d2: "convert_u unicode_sample (map of_char ''add_to_vector'') = map of_char ''add_to_vector''"
    by blast
  from convert_u_idempotent [of "map of_char ''HTTPResponse2Code''" unicode_sample] b3
  have d3: "list_all (\<lambda>c. \<not> is_upper unicode_sample c)
              (convert_u unicode_sample (map of_char ''HTTPResponse2Code''))"
    by blast
  from convert_u_idempotent [of "[0x1C5]" unicode_sample] n4
  have d4: "convert_u unicode_sample [0x1C5] = str_lower unicode_sample [0x1C5]"
    by blast
  from convert_u_idempotent [of "[0x61, 0x42, 0x3D2]" unicode_sample]
    str_lower_sample_idem str_lower_sample_no_AZ c5
  have d5: "convert_u unicode_sample (convert_u unicode_sample [0x61, 0x42, 0x3D2])
              = [0x61, 0x5F, 0x62, 0x3D2]"
    by simp
  from b1 c1 d1 u2 d2 d3 n4 d4 c5 d5 show ?thesis
    by (simp only: simp_thms)
qed

text \<open>
  C9, as the claim states it, fails in the two readings it calls equivalent to
  idempotence. The string of the one code point U+03D2 holds an uppercase
  letter and \<^verbatim>\<open>convert\<close> returns it unchanged: the result holds an uppercase
  letter. The string of the one code point U+01C5 holds no uppercase letter and
  \<^verbatim>\<open>convert\<close> changes it.
\<close>

theorem convert_u_beyond_latin1:
  "is_upper unicode_sample 0x3D2
   \<and> convert_u unicode_sample [0x3D2] = [0x3D2]
   \<and> list_all (\<lambda>c. is_upper unicode_sample c) (convert_u unicode_sample [0x3D2])
   \<and> list_all (\<lambda>c. \<not> is_upper unicode_sample c) [0x1C5]
   \<and> convert_u unicode_sample [0x1C5] = [0x1C6]
   \<and> convert_u unicode_sample [0x1C5] \<noteq> [0x1C5]"
  by (simp add: convert_u_def str_lower_def unicode_sample_def is_upper_def cp_lower_def)

section \<open>The cells that rename the methods of \<^verbatim>\<open>MyVector\<close>\<close>

lemma type_create_eq:
  "type_create m name bases attrs w
   = (make_class (next_id w) m name bases attrs, w\<lparr>next_id := Suc (next_id w)\<rparr>)"
  by (simp add: type_create_def alloc_def)

lemma make_class_sel [simp]:
  "c_id (make_class i m name bases attrs) = i"
  "c_meta (make_class i m name bases attrs) = m"
  "c_abstract (make_class i m name bases attrs) = []"
  "c_name (make_class i m name bases attrs) = name"
  by (simp_all add: make_class_def Let_def)

lemma CamelToSnake_attrs_MyVector:
  "CamelToSnake_new_attrs ''MyVector'' ([]::pyclass list) MyVector_body = snake_MyVector"
  by code_simp

lemma camel_to_snake_case_attrs_MyVector:
  "camel_to_snake_case_attrs ''MyVector'' ([]::pyclass list) MyVector_body = snake_MyVector"
  by code_simp

lemma define_MyVector_CamelToSnake:
  "m = CamelToSnake \<or> m = SnakeSingleton \<Longrightarrow>
   define_MyVector (MetaType m) w = (Inr (MyVector_class m (next_id w)), w\<lparr>next_id := Suc (next_id w)\<rparr>)"
  by (auto simp add: define_MyVector_def class_stmt_def meta_new_def meta_init_def meta_subtype_def
      CamelToSnake_new_def type_new_direct_def CamelToSnake_attrs_MyVector MyVector_class_def
      type_create_eq)

lemma define_MyVector_function:
  "define_MyVector Meta_camel_to_snake_case w
   = (Inr (MyVector_class Type (next_id w)),
      w\<lparr>next_id := Suc (next_id w),
        stdout := stdout w @ [''Calling the metaclass camel_to_snake_case to construct class: MyVector'']\<rparr>)"
  by (simp add: define_MyVector_def class_stmt_def camel_to_snake_case_def type_3_def type_new_def
      meta_init_def camel_to_snake_case_attrs_MyVector MyVector_class_def type_create_eq print_def
      Let_def)

lemma MyVector_class_names:
  "filter (\<lambda>a. \<not> startswith a ''__'') (dir_class (MyVector_class m i))
   = [''add_to_vector'', ''calculate_cross_product'', ''calculate_dot_product'',
      ''calculate_triple_product'', ''subtract_from_vector'']"
  by code_simp

lemma public_names_line:
  "repr_list (map repr_str [''add_to_vector'', ''calculate_cross_product'', ''calculate_dot_product'',
      ''calculate_triple_product'', ''subtract_from_vector''])
   = ''['add_to_vector', 'calculate_cross_product', 'calculate_dot_product', 'calculate_triple_product', 'subtract_from_vector']''"
  by code_simp

lemma print_public_names_MyVector:
  "print_public_names (MyVector_class m i) w =
     w\<lparr>stdout := stdout w @ [''['add_to_vector', 'calculate_cross_product', 'calculate_dot_product', 'calculate_triple_product', 'subtract_from_vector']'']\<rparr>"
  by (simp only: print_public_names_def MyVector_class_names public_names_line print_def)

text \<open>
  C1. The cell that defines \<^verbatim>\<open>MyVector\<close> with the metaclass \<^verbatim>\<open>CamelToSnake\<close> and
  prints its public names prints the five snake-case names, in any state; the
  class name \<^verbatim>\<open>MyVector\<close> does not start with two underscores, so \<^verbatim>\<open>convert\<close> is
  applied to every key of the namespace, \<^verbatim>\<open>__module__\<close> and \<^verbatim>\<open>__qualname__\<close> included.
\<close>

theorem CamelToSnake_cell_output:
  "stdout (snd (cell_class_metaclass w)) =
     stdout w @ [''['add_to_vector', 'calculate_cross_product', 'calculate_dot_product', 'calculate_triple_product', 'subtract_from_vector']'']
   \<and> CamelToSnake_new_attrs ''MyVector'' ([]::pyclass list) MyVector_body
       = map (\<lambda>(k, v). (convert k, v)) MyVector_body"
proof
  show "stdout (snd (cell_class_metaclass w)) =
     stdout w @ [''['add_to_vector', 'calculate_cross_product', 'calculate_dot_product', 'calculate_triple_product', 'subtract_from_vector']'']"
    by (simp add: cell_class_metaclass_def define_MyVector_CamelToSnake print_public_names_MyVector)
  show "CamelToSnake_new_attrs ''MyVector'' ([]::pyclass list) MyVector_body
       = map (\<lambda>(k, v). (convert k, v)) MyVector_body"
    by code_simp
qed

lemma map_fst_dict_set:
  "map fst (dict_set k v d) = (if k \<in> set (map fst d) then map fst d else map fst d @ [k])"
  by (induction d) force+

lemma keys_dict_set: "fst ` set (dict_set k v d) = insert k (fst ` set d)"
proof -
  have "set (map fst (dict_set k v d)) = insert k (set (map fst d))"
    by (simp add: map_fst_dict_set insert_absorb)
  then show ?thesis by simp
qed

lemma camel_to_snake_case_loop_keys:
  "fst ` set (camel_to_snake_case_loop attrs acc)
   = fst ` set acc \<union> (\<lambda>k. if startswith k ''__'' then k else convert k) ` fst ` set attrs"
  by (induction attrs acc rule: camel_to_snake_case_loop.induct) (auto simp add: keys_dict_set)

text \<open>
  C7. The cell that defines \<^verbatim>\<open>MyVector\<close> with the function \<^verbatim>\<open>camel_to_snake_case\<close>
  as metaclass prints the line of the metaclass and then the five snake-case
  names; for every namespace, the keys the function passes to \<^verbatim>\<open>type\<close> are the
  keys that start with two underscores, unchanged, and \<^verbatim>\<open>convert\<close> of the others.
\<close>

theorem camel_to_snake_case_cell_output:
  "stdout (snd (cell_function_metaclass w)) =
     stdout w @ [''Calling the metaclass camel_to_snake_case to construct class: MyVector'',
                 ''['add_to_vector', 'calculate_cross_product', 'calculate_dot_product', 'calculate_triple_product', 'subtract_from_vector']'']
   \<and> fst ` set (camel_to_snake_case_attrs name bases attrs)
       = (\<lambda>k. if startswith k ''__'' then k else convert k) ` fst ` set attrs"
proof
  show "stdout (snd (cell_function_metaclass w)) =
     stdout w @ [''Calling the metaclass camel_to_snake_case to construct class: MyVector'',
                 ''['add_to_vector', 'calculate_cross_product', 'calculate_dot_product', 'calculate_triple_product', 'subtract_from_vector']'']"
    by (simp add: cell_function_metaclass_def define_MyVector_function print_public_names_MyVector)
  show "fst ` set (camel_to_snake_case_attrs name bases attrs)
       = (\<lambda>k. if startswith k ''__'' then k else convert k) ` fst ` set attrs"
    by (simp add: camel_to_snake_case_attrs_def camel_to_snake_case_loop_keys)
qed

text \<open>
  C8. The two metaclasses are meant to compute the same dictionary for a class
  whose name does not start with two underscores. On the namespace
  \<^verbatim>\<open>{'__myDunder__': 1}\<close> of a class \<^verbatim>\<open>MyVector\<close> they do not:
  \<^verbatim>\<open>CamelToSnake.__new__\<close> renames the key, \<^verbatim>\<open>camel_to_snake_case\<close> keeps it.
\<close>

theorem CamelToSnake_new_renames_dunder:
  "\<not> startswith ''MyVector'' ''__''
   \<and> CamelToSnake_new_attrs ''MyVector'' ([]::pyclass list) [(''__myDunder__'', PyInt 1)]
       = [(''__my_dunder__'', PyInt 1)]
   \<and> camel_to_snake_case_attrs ''MyVector'' ([]::pyclass list) [(''__myDunder__'', PyInt 1)]
       = [(''__myDunder__'', PyInt 1)]"
  by code_simp

text \<open>
  The two loops agree where \<^verbatim>\<open>convert\<close> changes no key that starts with two
  underscores.
\<close>

lemma loops_agree:
  "\<not> startswith name ''__'' \<Longrightarrow> \<forall>k \<in> fst ` set attrs. startswith k ''__'' \<longrightarrow> convert k = k
   \<Longrightarrow> CamelToSnake_loop name attrs acc = camel_to_snake_case_loop attrs acc"
  by (induction attrs acc rule: camel_to_snake_case_loop.induct) auto

section \<open>The abstract class \<^verbatim>\<open>Car\<close>\<close>

lemma abc_setup_sel [simp]:
  "c_id (abc_setup cls bases namespace) = c_id cls"
  "c_meta (abc_setup cls bases namespace) = c_meta cls"
  "c_name (abc_setup cls bases namespace) = c_name cls"
  by (simp_all add: abc_setup_def Let_def)

lemma define_Vehicle_eq:
  "define_Vehicle w = (Inr (Vehicle_class (next_id w)), w\<lparr>next_id := Suc (next_id w)\<rparr>)"
  by (simp add: define_Vehicle_def class_stmt_def meta_new_def meta_init_def ABCMeta_new_def
      type_new_direct_def type_create_eq Vehicle_class_def)

lemma define_Car_eq:
  "define_Car (Vehicle_class i) w
   = (Inr (Car_class i (next_id w)), w\<lparr>next_id := Suc (next_id w)\<rparr>)"
proof -
  have m: "c_meta (Vehicle_class i) = ABCMeta"
    by (simp add: Vehicle_class_def)
  show ?thesis
    by (simp add: define_Car_def class_stmt_def m meta_subtype_def meta_new_def meta_init_def
        ABCMeta_new_def type_new_direct_def type_create_eq Car_class_def)
qed

lemma Car_class_abstract: "c_abstract (Car_class i j) = [''change_gear'', ''start_engine'']"
  by code_simp

lemma Car_class_resolve:
  "resolve_new (Car_class i j) = None"
  "resolve_init (Car_class i j) = Some F_Car_init"
  by code_simp+

lemma Car_class_sel [simp]:
  "c_id (Car_class i j) = j"
  "c_meta (Car_class i j) = ABCMeta"
  "c_name (Car_class i j) = ''Car''"
  by (simp_all add: Car_class_def)

lemma abstract_message:
  "''Can'' @ [CHR 0x27] @ ''t instantiate abstract class '' @ ''Car''
     @ '' with abstract methods '' @ join '', '' (sort [''change_gear'', ''start_engine''])
   = ''Can't instantiate abstract class Car with abstract methods change_gear, start_engine''"
  by code_simp

lemma new_Car_eq:
  "new_Car (Car_class i j) w =
     (Inl (TypeError ''Can't instantiate abstract class Car with abstract methods change_gear, start_engine''),
      w\<lparr>ctor_log := ctor_log w @ [NewCalled j]\<rparr>)"
  by (simp add: new_Car_def instantiate_def type_call_def call_new_def Car_class_resolve
      object_new_def Car_class_abstract abstract_message log_event_def Let_def
      del: append.simps sort_key_simps)

text \<open>
  C3. Calling \<^verbatim>\<open>Car('Toyota', 'Avensis', 'silver')\<close> raises the \<^verbatim>\<open>TypeError\<close> with
  the documented message; the cell catches it, binds no \<^verbatim>\<open>car\<close>, and prints the
  message.
\<close>

theorem abstract_Car_TypeError:
  "fst (new_Car (Car_class i j) w)
     = Inl (TypeError ''Can't instantiate abstract class Car with abstract methods change_gear, start_engine'')
   \<and> fst (cell_abc w) = Inr None
   \<and> stdout (snd (cell_abc w))
     = stdout w @ [''Can't instantiate abstract class Car with abstract methods change_gear, start_engine'']"
  by (simp add: cell_abc_def define_Vehicle_eq define_Car_eq try_new_Car_def new_Car_eq print_def)

lemma bind_kwargs_TypeError:
  "bind_kwargs fname names bound kwargs = Inl e \<Longrightarrow> \<exists>m. e = TypeError m"
  by (induction fname names bound kwargs rule: bind_kwargs.induct)
    (auto simp add: unexpected_keyword_def multiple_values_def split: if_splits)

lemma bind_positional_TypeError:
  "bind_positional fname params star kwargs = Some e \<Longrightarrow> \<exists>m. e = TypeError m"
  by (induction fname params star kwargs rule: bind_positional.induct)
    (auto simp add: unexpected_keyword_def multiple_values_def split: if_splits)

lemma bind_positional_receiver:
  "bind_positional fname [r] True kwargs =
     (if dict_has kwargs r then Some (multiple_values fname r) else None)"
  by (induction kwargs) (auto simp add: dict_has_def)

lemma bind_TypeError:
  "bind fname recv params defaults args kwargs = Inl e \<Longrightarrow> \<exists>m. e = TypeError m"
  by (auto simp add: bind_def too_many_positional_def format_missing_def Let_def
      dest: bind_kwargs_TypeError split: sum.splits if_splits)

lemma object_new_abstract:
  "c_abstract cls \<noteq> [] \<Longrightarrow> \<exists>m. fst (object_new cls a k w) = Inl (TypeError m)"
  by (simp add: object_new_def)

lemma call_new_abstract:
  assumes "c_abstract cls \<noteq> []"
  shows "\<exists>m. fst (call_new cls a k w) = Inl (TypeError m)"
proof -
  let ?w0 = "log_event (NewCalled (c_id cls)) w"
  consider (one) "resolve_new cls = Some F_MyClass1_new"
    | (two) "resolve_new cls \<noteq> Some F_MyClass1_new" "resolve_new cls = Some F_MyClass2_new"
    | (obj) "resolve_new cls \<noteq> Some F_MyClass1_new" "resolve_new cls \<noteq> Some F_MyClass2_new"
    by blast
  then show ?thesis
  proof cases
    case one
    with object_new_abstract [OF assms] show ?thesis
      by (simp add: call_new_def MyClass1_new_def bind_positional_receiver multiple_values_def
          Let_def)
  next
    case two
    show ?thesis
    proof (cases "bind ''__new__'' ''cls'' [''s'', ''a'', ''b''] [(''a'', PyInt 0), (''b'', PyInt 0)] a k")
      case (Inl e)
      with bind_TypeError obtain m where "e = TypeError m" by blast
      with two Inl show ?thesis
        by (simp add: call_new_def MyClass2_new_def Let_def)
    next
      case (Inr b)
      with two object_new_abstract [OF assms] show ?thesis
        by (simp add: call_new_def MyClass2_new_def Let_def)
    qed
  next
    case obj
    with object_new_abstract [OF assms] show ?thesis
      by (simp add: call_new_def Let_def)
  qed
qed

lemma type_call_abstract:
  assumes "c_abstract cls \<noteq> []"
  shows "\<exists>m. fst (type_call cls a k w) = Inl (TypeError m)"
proof -
  from call_new_abstract [OF assms] obtain m where "fst (call_new cls a k w) = Inl (TypeError m)"
    by blast
  then show ?thesis
    by (cases "call_new cls a k w") (simp add: type_call_def)
qed

text \<open>
  C4. The two class statements of the cell return their classes, in any state
  and without printing; \<^verbatim>\<open>Car\<close> carries the two abstract names it inherits; the
  \<^verbatim>\<open>TypeError\<close> is raised by the call \<^verbatim>\<open>Car('Toyota', 'Avensis', 'silver')\<close>. For
  every class, \<^verbatim>\<open>type.__call__\<close> raises \<^verbatim>\<open>TypeError\<close> when the class has abstract
  methods left.
\<close>

theorem abstract_check_at_instantiation:
  "define_Vehicle w = (Inr (Vehicle_class (next_id w)), w\<lparr>next_id := Suc (next_id w)\<rparr>)
   \<and> define_Car (Vehicle_class i) w = (Inr (Car_class i (next_id w)), w\<lparr>next_id := Suc (next_id w)\<rparr>)
   \<and> c_abstract (Car_class i j) = [''change_gear'', ''start_engine'']
   \<and> (\<exists>m. fst (new_Car (Car_class i j) w) = Inl (TypeError m))
   \<and> (c_abstract cls \<noteq> [] \<longrightarrow> (\<exists>m. fst (type_call cls a k w) = Inl (TypeError m)))"
  using define_Vehicle_eq [of w] define_Car_eq [of i w] Car_class_abstract [of i j]
    new_Car_eq [of i j w] type_call_abstract [of cls a k w]
  by simp

theorem abstract_check_at_instantiation_witness:
  "c_abstract (Car_class 100 101) \<noteq> []
   \<and> (\<exists>m. fst (type_call (Car_class 100 101) [PyStr ''Toyota'', PyStr ''Avensis'', PyStr ''silver''] []
                 (world0 102)) = Inl (TypeError m))"
proof -
  have h: "c_abstract (Car_class 100 101) \<noteq> []"
    by (simp add: Car_class_abstract)
  from abstract_check_at_instantiation
    [of "world0 102" 100 101 "Car_class 100 101" "[PyStr ''Toyota'', PyStr ''Avensis'', PyStr ''silver'']" "[]"] h
  show ?thesis by blast
qed

section \<open>The cell of \<^verbatim>\<open>MyClass1\<close>\<close>

lemma define_MyClass1_eq:
  "define_MyClass1 w
   = (Inr (MyClass1_class (next_id w)),
      w\<lparr>next_id := Suc (next_id w), stdout := stdout w @ [''Calling meta_function'']\<rparr>)"
  by (simp add: define_MyClass1_def class_stmt_def meta_function_def type_3_def type_new_def
      meta_init_def MyClass1_class_def type_create_eq print_def Let_def)

lemma MyClass1_class_resolve:
  "resolve_new (MyClass1_class i) = Some F_MyClass1_new"
  "resolve_init (MyClass1_class i) = Some F_MyClass1_init"
  by code_simp+

lemma MyClass1_class_sel [simp]:
  "c_id (MyClass1_class i) = i"
  "c_meta (MyClass1_class i) = Type"
  "c_abstract (MyClass1_class i) = []"
  by (simp_all add: MyClass1_class_def)

lemma MyClass1_class_text:
  "str_class (MyClass1_class i) = ''<class '__main__.MyClass1'>''"
  "class_module (MyClass1_class i) = ''__main__''"
  "c_qualname (MyClass1_class i) = ''MyClass1''"
  by code_simp+

lemma cell_args_text:
  "repr_tuple [dec_int 1, dec_int 2, dec_int 3] = ''(1, 2, 3)''"
  "repr_dict [(''x'', PyStr ''ex''), (''y'', PyStr ''why'')] = ''{'x': 'ex', 'y': 'why'}''"
  by code_simp+

lemma new_MyClass1_eq:
  "new_MyClass1 (MyClass1_class i) w =
     (Inr (next_id w),
      w\<lparr>next_id := Suc (next_id w),
        heap := heap w @ [(next_id w, \<lparr>o_class = i, o_attrs = []\<rparr>)],
        ctor_log := ctor_log w @ [NewCalled i, InitCalled i],
        stdout := stdout w @
          [''MyClass1.__new__(<class '__main__.MyClass1'>, *(1, 2, 3), **{'x': 'ex', 'y': 'why'})'',
           ''MyClass1.__init__(<__main__.MyClass1 object at '' @ ptr_fmt w (next_id w)
             @ ''>, *(1, 2, 3), **{'x': 'ex', 'y': 'why'})'']\<rparr>)"
  by (simp add: new_MyClass1_def instantiate_def type_call_def call_new_def call_init_def
      MyClass1_class_resolve MyClass1_new_def MyClass1_init_def object_new_def object_repr_def
      MyClass1_class_text cell_args_text alloc_def log_event_def print_def Let_def)

text \<open>
  C6, as the code has it. The cell \<^verbatim>\<open>a = MyClass1(1, 2, 3, x='ex', y='why')\<close>
  prints the documented first line and, as its second line, the documented one
  with the address of the instance it has just created, as the platform
  writes it.
\<close>

theorem MyClass1_cell_output:
  "define_MyClass1 w0
     = (Inr (MyClass1_class (next_id w0)),
        w0\<lparr>next_id := Suc (next_id w0), stdout := stdout w0 @ [''Calling meta_function'']\<rparr>)
   \<and> fst (new_MyClass1 (MyClass1_class i) w) = Inr (next_id w)
   \<and> stdout (snd (new_MyClass1 (MyClass1_class i) w))
     = stdout w @
         [''MyClass1.__new__(<class '__main__.MyClass1'>, *(1, 2, 3), **{'x': 'ex', 'y': 'why'})'',
          ''MyClass1.__init__(<__main__.MyClass1 object at '' @ ptr_fmt w (next_id w)
            @ ''>, *(1, 2, 3), **{'x': 'ex', 'y': 'why'})'']"
  by (simp add: define_MyClass1_eq new_MyClass1_eq)

lemma hex_upper_numeral:
  "hex_upper (numeral k) n
   = hex_upper (pred_numeral k) (n div 16) @ [''0123456789ABCDEF'' ! (n mod 16)]"
  by (simp only: numeral_eq_Suc [of k] hex_upper.simps)

lemma ptr16_recorded: "ptr16 0x169EED619E8 = ''0x00000169EED619E8''"
  by (simp add: ptr16_def hex_upper_numeral)

lemma ptr16_other: "ptr16 0x169EED7D860 = ''0x00000169EED7D860''"
  by (simp add: ptr16_def hex_upper_numeral)

lemma world0_sel:
  "ptr_fmt (world0 n) = ptr16" "next_id (world0 n) = n" "stdout (world0 n) = []"
  "instances (world0 n) = []" "heap (world0 n) = []" "ctor_log (world0 n) = []"
  by (simp_all add: world0_def)

text \<open>
  In a run that creates the instance at the recorded address, on a platform
  that writes addresses as the notebook records them, the cell prints the
  documented lines.
\<close>

theorem MyClass1_cell_output_witness:
  "stdout (snd (new_MyClass1 (MyClass1_class 100) (world0 0x169EED619E8)))
   = [''MyClass1.__new__(<class '__main__.MyClass1'>, *(1, 2, 3), **{'x': 'ex', 'y': 'why'})'',
      ''MyClass1.__init__(<__main__.MyClass1 object at 0x00000169EED619E8>, *(1, 2, 3), **{'x': 'ex', 'y': 'why'})'']"
proof -
  from MyClass1_cell_output [of "world0 0" 100 "world0 0x169EED619E8"]
  have "stdout (snd (new_MyClass1 (MyClass1_class 100) (world0 0x169EED619E8)))
     = stdout (world0 0x169EED619E8) @
         [''MyClass1.__new__(<class '__main__.MyClass1'>, *(1, 2, 3), **{'x': 'ex', 'y': 'why'})'',
          ''MyClass1.__init__(<__main__.MyClass1 object at ''
            @ ptr_fmt (world0 0x169EED619E8) (next_id (world0 0x169EED619E8))
            @ ''>, *(1, 2, 3), **{'x': 'ex', 'y': 'why'})'']"
    by (rule conjunct2 [THEN conjunct2])
  then show ?thesis
    by (simp only: world0_sel ptr16_recorded append.simps)
qed

text \<open>
  C6, as the claim states it, fails: in a run that creates the instance at
  another address (here the one the notebook records for its \<^verbatim>\<open>MyClass2\<close>
  instance) the second line is not the documented one.
\<close>

theorem MyClass1_cell_other_address:
  "stdout (snd (new_MyClass1 (MyClass1_class 100) (world0 0x169EED7D860)))
   \<noteq> [''MyClass1.__new__(<class '__main__.MyClass1'>, *(1, 2, 3), **{'x': 'ex', 'y': 'why'})'',
       ''MyClass1.__init__(<__main__.MyClass1 object at 0x00000169EED619E8>, *(1, 2, 3), **{'x': 'ex', 'y': 'why'})'']"
  by (simp add: new_MyClass1_eq world0_sel ptr16_other)

section \<open>The cache of \<^verbatim>\<open>Singleton\<close>\<close>

lemma instances_print [simp]: "instances (print s w) = instances w"
  by (simp add: print_def)

lemma instances_log_event [simp]: "instances (log_event e w) = instances w"
  by (simp add: log_event_def)

lemma instances_setattr [simp]: "instances (setattr self k v w) = instances w"
  by (simp add: setattr_def)

lemma instances_object_new [simp]: "instances (snd (object_new cls a k w)) = instances w"
  by (simp add: object_new_def alloc_def)

lemma instances_object_init [simp]: "instances (snd (object_init cls self a k w)) = instances w"
  by (simp add: object_init_def)

lemma instances_Car_init [simp]: "instances (snd (Car_init cls self a k w)) = instances w"
  by (simp add: Car_init_def split: sum.splits)

lemma instances_MyClass1_new [simp]: "instances (snd (MyClass1_new cls a k w)) = instances w"
  by (simp add: MyClass1_new_def bind_positional_receiver)

lemma instances_MyClass1_init [simp]: "instances (snd (MyClass1_init cls self a k w)) = instances w"
  by (simp add: MyClass1_init_def bind_positional_receiver)

lemma instances_MyClass2_new [simp]: "instances (snd (MyClass2_new cls a k w)) = instances w"
  by (simp add: MyClass2_new_def split: sum.splits)

lemma instances_MyClass2_init [simp]: "instances (snd (MyClass2_init cls self a k w)) = instances w"
  by (simp add: MyClass2_init_def split: sum.splits)

lemma instances_call_new [simp]: "instances (snd (call_new cls a k w)) = instances w"
  by (simp add: call_new_def Let_def)

lemma instances_call_init [simp]: "instances (snd (call_init cls self a k w)) = instances w"
  by (simp add: call_init_def Let_def)

lemma instances_type_call [simp]: "instances (snd (type_call cls a k w)) = instances w"
proof (cases "call_new cls a k w")
  case (Pair r w1)
  then have i1: "instances w1 = instances w"
    using instances_call_new [of cls a k w] by simp
  show ?thesis
  proof (cases r)
    case (Inl e)
    with Pair i1 show ?thesis by (simp add: type_call_def)
  next
    case (Inr self)
    obtain r2 w2 where c2: "call_init cls self a k w1 = (r2, w2)"
      by (cases "call_init cls self a k w1")
    then have "instances w2 = instances w1"
      using instances_call_init [of cls self a k w1] by simp
    with Pair Inr c2 i1 show ?thesis
      by (cases r2) (simp_all add: type_call_def)
  qed
qed

lemma instances_MyMeta_call [simp]: "instances (snd (MyMeta_call cls a k w)) = instances w"
proof -
  let ?w1 = "print (''MyMeta.__call__(cls='' @ str_class cls @ '', args=''
                      @ repr_tuple (map repr_val a) @ '', kwargs='' @ repr_dict k) w"
  obtain r w2 where c: "type_call cls a k ?w1 = (r, w2)"
    by (cases "type_call cls a k ?w1")
  then have "instances w2 = instances w"
    using instances_type_call [of cls a k ?w1] by simp
  with c show ?thesis
    by (cases r) (simp_all add: MyMeta_call_def bind_positional_receiver)
qed

lemma map_of_dict_set: "map_of (dict_set k v d) k' = (if k' = k then Some v else map_of d k')"
  by (induction d) auto

lemma dict_set_absent: "\<not> dict_has d k \<Longrightarrow> dict_set k v d = d @ [(k, v)]"
  by (induction d) (auto simp add: dict_has_def)

lemma is_singleton_iff:
  "is_singleton cls = (c_meta cls = Singleton \<or> c_meta cls = SnakeSingleton)"
  by (auto simp add: is_singleton_def meta_subtype_def)

lemma instantiate_singleton:
  "is_singleton cls \<Longrightarrow> instantiate cls a k w = Singleton_call cls a k w"
  by (auto simp add: is_singleton_iff instantiate_def)

lemma instantiate_not_singleton:
  "\<not> is_singleton cls \<Longrightarrow> instances (snd (instantiate cls a k w)) = instances w"
  by (cases "c_meta cls") (simp_all add: is_singleton_iff instantiate_def)

lemma Singleton_call_keyword:
  "dict_has k ''cls'' \<Longrightarrow>
   Singleton_call cls a k w =
     (Inl (TypeError (''__call__() got multiple values for argument 'cls'' @ [CHR 0x27])), w)"
  by (simp add: Singleton_call_def bind_positional_receiver multiple_values_def)

lemma Singleton_call_cached:
  "\<not> dict_has k ''cls'' \<Longrightarrow> map_of (instances w) (c_id cls) = Some v
   \<Longrightarrow> Singleton_call cls a k w = (Inr v, w)"
  by (simp add: Singleton_call_def bind_positional_receiver dict_has_def)

lemma Singleton_call_first:
  assumes "\<not> dict_has (instances w) (c_id cls)" and nk: "\<not> dict_has k ''cls''"
  shows "Singleton_call cls a k w =
           (case type_call cls a k w of
              (Inl e, w1) \<Rightarrow> (Inl e, w1)
            | (Inr self, w1) \<Rightarrow> (Inr self, w1\<lparr>instances := instances w @ [(c_id cls, self)]\<rparr>))"
proof (cases "type_call cls a k w")
  case (Pair r w1)
  then have i: "instances w1 = instances w"
    using instances_type_call [of cls a k w] by simp
  show ?thesis
  proof (cases r)
    case (Inl e)
    with assms Pair show ?thesis
      by (simp add: Singleton_call_def bind_positional_receiver)
  next
    case (Inr self)
    with assms Pair i show ?thesis
      by (simp add: Singleton_call_def bind_positional_receiver dict_set_absent dict_has_def
          map_add_def)
  qed
qed

lemma Singleton_call_keeps:
  assumes "map_of (instances w) c = Some v"
  shows "map_of (instances (snd (Singleton_call cls a k w))) c = Some v"
proof (cases "dict_has k ''cls''")
  case True
  with assms show ?thesis
    by (simp add: Singleton_call_keyword)
next
  case nk: False
  show ?thesis
  proof (cases "dict_has (instances w) (c_id cls)")
    case True
    then obtain u where "map_of (instances w) (c_id cls) = Some u"
      by (auto simp add: dict_has_def)
    with nk have "Singleton_call cls a k w = (Inr u, w)"
      by (rule Singleton_call_cached)
    with assms show ?thesis by simp
  next
    case False
    obtain r w1 where c: "type_call cls a k w = (r, w1)"
      by (cases "type_call cls a k w")
    then have i: "instances w1 = instances w"
      using instances_type_call [of cls a k w] by simp
    from c i assms show ?thesis
      by (cases r) (simp_all add: Singleton_call_first [OF False nk])
  qed
qed

lemma instantiate_keeps:
  assumes "map_of (instances w) c = Some v"
  shows "map_of (instances (snd (instantiate cls a k w))) c = Some v"
proof (cases "is_singleton cls")
  case True
  with assms show ?thesis
    by (simp add: instantiate_singleton Singleton_call_keeps)
next
  case False
  with assms show ?thesis
    by (simp add: instantiate_not_singleton)
qed

lemma run_keeps:
  "map_of (instances w) c = Some v \<Longrightarrow> map_of (instances (run calls w)) c = Some v"
proof (induction calls arbitrary: w)
  case Nil
  then show ?case by simp
next
  case (Cons x calls)
  obtain cls a k where x: "x = (cls, a, k)" by (cases x)
  from Cons.prems have "map_of (instances (snd (instantiate cls a k w))) c = Some v"
    by (rule instantiate_keeps)
  then show ?case using Cons.IH x by simp
qed

lemma Singleton_call_caches:
  assumes "Singleton_call cls a k w = (Inr v, w1)"
  shows "map_of (instances w1) (c_id cls) = Some v"
  using assms
  by (auto simp add: Singleton_call_def split: if_splits sum.splits prod.splits option.splits)

lemma instantiate_cached:
  "is_singleton cls \<Longrightarrow> \<not> dict_has k ''cls'' \<Longrightarrow> map_of (instances w) (c_id cls) = Some v
   \<Longrightarrow> instantiate cls a k w = (Inr v, w)"
  by (simp add: instantiate_singleton Singleton_call_cached)

lemma instantiate_keyword:
  "is_singleton cls \<Longrightarrow> dict_has k ''cls''
   \<Longrightarrow> instantiate cls a k w =
         (Inl (TypeError (''__call__() got multiple values for argument 'cls'' @ [CHR 0x27])), w)"
  by (simp add: instantiate_singleton Singleton_call_keyword)

lemma instantiate_caches:
  "is_singleton cls \<Longrightarrow> instantiate cls a k w = (Inr v, w1)
   \<Longrightarrow> map_of (instances w1) (c_id cls) = Some v"
  by (simp add: instantiate_singleton Singleton_call_caches)

lemma later_call:
  assumes "is_singleton cls" and "instantiate cls a1 k1 w = (Inr v, w1)"
    and nk: "\<not> dict_has k2 ''cls''"
  shows "instantiate cls a2 k2 (run calls w1) = (Inr v, run calls w1)"
proof -
  from assms(1,2) have "map_of (instances w1) (c_id cls) = Some v"
    by (rule instantiate_caches)
  then have "map_of (instances (run calls w1)) (c_id cls) = Some v"
    by (rule run_keeps)
  with assms(1) nk show ?thesis
    by (rule instantiate_cached)
qed

lemma MyVector_class_sel [simp]:
  "c_id (MyVector_class m i) = i"
  "c_meta (MyVector_class m i) = m"
  "c_abstract (MyVector_class m i) = []"
  by (simp_all add: MyVector_class_def)

lemma MyVector_class_resolve:
  "resolve_new (MyVector_class m i) = None"
  "resolve_init (MyVector_class m i) = None"
  by code_simp+

lemma type_call_default:
  assumes "resolve_new cls = None" and "resolve_init cls = None" and "c_abstract cls = []"
  shows "type_call cls [] [] w =
           (Inr (next_id w),
            w\<lparr>next_id := Suc (next_id w),
              heap := heap w @ [(next_id w, \<lparr>o_class = c_id cls, o_attrs = []\<rparr>)],
              ctor_log := ctor_log w @ [NewCalled (c_id cls), InitCalled (c_id cls)]\<rparr>)"
  using assms
  by (simp add: type_call_def call_new_def call_init_def object_new_def object_init_def
      alloc_def log_event_def Let_def)

lemma new_MyVector_Singleton_first:
  "\<not> dict_has (instances w) i \<Longrightarrow>
   instantiate (MyVector_class SnakeSingleton i) [] [] w =
     (Inr (next_id w),
      w\<lparr>next_id := Suc (next_id w),
        heap := heap w @ [(next_id w, \<lparr>o_class = i, o_attrs = []\<rparr>)],
        instances := instances w @ [(i, next_id w)],
        ctor_log := ctor_log w @ [NewCalled i, InitCalled i]\<rparr>)"
  by (simp add: instantiate_def Singleton_call_first dict_has_def
      type_call_default [OF MyVector_class_resolve(1) MyVector_class_resolve(2) MyVector_class_sel(3)])

lemma new_MyVector_Singleton_again:
  "dict_has (instances w) i \<Longrightarrow> \<not> dict_has k ''cls'' \<Longrightarrow>
   instantiate (MyVector_class SnakeSingleton i) a k w = (Inr (the (map_of (instances w) i)), w)"
  by (auto simp add: dict_has_def instantiate_cached is_singleton_iff)

lemma new_MyVector_Singleton_state:
  "dict_has (instances w) i \<Longrightarrow> snd (instantiate (MyVector_class SnakeSingleton i) a k w) = w"
  by (cases "dict_has k ''cls''")
    (simp_all add: new_MyVector_Singleton_again instantiate_keyword is_singleton_iff)

lemma cell_singleton_eq:
  "cell_singleton w =
     (Inr (MyVector_class SnakeSingleton (next_id w), Suc (next_id w), Suc (next_id w)),
      w\<lparr>next_id := Suc (Suc (next_id w)),
        heap := heap w @ [(Suc (next_id w), \<lparr>o_class = next_id w, o_attrs = []\<rparr>)],
        instances := [(next_id w, Suc (next_id w))],
        ctor_log := ctor_log w @ [NewCalled (next_id w), InitCalled (next_id w)],
        stdout := stdout w @
          [''['add_to_vector', 'calculate_cross_product', 'calculate_dot_product', 'calculate_triple_product', 'subtract_from_vector']'',
           ''True'']\<rparr>)"
  by (simp add: cell_singleton_def define_MyVector_CamelToSnake Let_def
      print_public_names_MyVector new_MyVector_Singleton_first new_MyVector_Singleton_again
      dict_has_def print_def str_bool_def)


lemma singleton_demo_calls:
  "is_singleton (MyVector_class SnakeSingleton 100)"
  "fst (instantiate (MyVector_class SnakeSingleton 100) [] [] (world0 101)) = Inr 101"
  "fst (instantiate (MyVector_class SnakeSingleton 100) [PyInt 1, PyInt 2] [(''x'', PyNone)]
         (run [(MyClass1_class 50, [PyInt 1], []), (MyVector_class SnakeSingleton 100, [PyInt 7], [])]
            (snd (instantiate (MyVector_class SnakeSingleton 100) [] [] (world0 101))))) = Inr 101"
  by code_simp+




lemma singleton_demo_log:
  "ctor_log (run [(MyVector_class SnakeSingleton 100, [PyInt 7], [])]
               (snd (instantiate (MyVector_class SnakeSingleton 100) [] [] (world0 101))))
   = [NewCalled 100, InitCalled 100]"
  by code_simp

lemma singleton_demo_keywords:
  "\<not> dict_has [(''b'', PyInt 2)] ''cls''"
  "dict_has [(''b'', PyInt 2), (''cls'', PyInt 1)] ''cls''"
  by (simp_all add: dict_has_def)


section \<open>What an instantiation changes\<close>

lemma frame_print [simp]:
  "heap (print s w) = heap w" "next_id (print s w) = next_id w"
  by (simp_all add: print_def)

lemma frame_log_event [simp]:
  "heap (log_event e w) = heap w" "next_id (log_event e w) = next_id w"
  by (simp_all add: log_event_def)

lemma map_of_update_one:
  "i \<noteq> self \<Longrightarrow>
   map_of (map (\<lambda>(j, ob). if j = self then (j, g ob) else (j, ob)) xs) i = map_of xs i"
  by (induction xs) auto

lemma heap_setattr:
  "i \<noteq> self \<Longrightarrow> map_of (heap (setattr self k v w)) i = map_of (heap w) i"
  by (simp add: setattr_def map_of_update_one)

lemma object_new_self:
  "object_new cls a k w = (Inr self, w1) \<Longrightarrow> self = next_id w"
  by (auto simp add: object_new_def alloc_def split: if_splits)

lemma heap_object_new:
  "i \<noteq> next_id w \<Longrightarrow> map_of (heap (snd (object_new cls a k w))) i = map_of (heap w) i"
  by (auto simp add: object_new_def alloc_def map_add_def split: option.splits)

lemma call_new_self:
  "call_new cls a k w = (Inr self, w1) \<Longrightarrow> self = next_id w"
  by (auto simp add: call_new_def MyClass1_new_def MyClass2_new_def Let_def
      dest!: object_new_self split: if_splits sum.splits option.splits)

lemma heap_call_new:
  "i \<noteq> next_id w \<Longrightarrow> map_of (heap (snd (call_new cls a k w))) i = map_of (heap w) i"
  by (simp add: call_new_def MyClass1_new_def MyClass2_new_def Let_def heap_object_new
      split: sum.splits option.splits)

lemma heap_call_init:
  "i \<noteq> self \<Longrightarrow> map_of (heap (snd (call_init cls self a k w))) i = map_of (heap w) i"
  by (simp add: call_init_def Car_init_def MyClass1_init_def MyClass2_init_def object_init_def
      Let_def heap_setattr split: sum.splits option.splits)

lemma heap_type_call:
  assumes "i \<noteq> next_id w"
  shows "map_of (heap (snd (type_call cls a k w))) i = map_of (heap w) i"
proof (cases "call_new cls a k w")
  case (Pair r w1)
  then have h1: "map_of (heap w1) i = map_of (heap w) i"
    using heap_call_new [OF assms, of cls a k] by simp
  show ?thesis
  proof (cases r)
    case (Inl e)
    with Pair h1 show ?thesis by (simp add: type_call_def)
  next
    case (Inr self)
    with Pair have "self = next_id w"
      using call_new_self by blast
    with assms have "i \<noteq> self" by simp
    then have "map_of (heap (snd (call_init cls self a k w1))) i = map_of (heap w1) i"
      by (rule heap_call_init)
    with Pair Inr h1 show ?thesis
      by (cases "call_init cls self a k w1") (auto simp add: type_call_def split: sum.splits)
  qed
qed

lemma heap_MyMeta_call:
  assumes "i \<noteq> next_id w"
  shows "map_of (heap (snd (MyMeta_call cls a k w))) i = map_of (heap w) i"
proof -
  let ?w1 = "print (''MyMeta.__call__(cls='' @ str_class cls @ '', args=''
                      @ repr_tuple (map repr_val a) @ '', kwargs='' @ repr_dict k) w"
  from assms have "map_of (heap (snd (type_call cls a k ?w1))) i = map_of (heap ?w1) i"
    by (simp add: heap_type_call)
  then show ?thesis
    by (cases "type_call cls a k ?w1")
      (auto simp add: MyMeta_call_def split: sum.splits option.splits)
qed

lemma heap_Singleton_call:
  assumes "i \<noteq> next_id w"
  shows "map_of (heap (snd (Singleton_call cls a k w))) i = map_of (heap w) i"
proof -
  from assms have "map_of (heap (snd (type_call cls a k w))) i = map_of (heap w) i"
    by (rule heap_type_call)
  then show ?thesis
    by (cases "type_call cls a k w")
      (auto simp add: Singleton_call_def split: sum.splits option.splits)
qed

lemma heap_instantiate:
  "i \<noteq> next_id w \<Longrightarrow> map_of (heap (snd (instantiate cls a k w))) i = map_of (heap w) i"
  by (cases "c_meta cls")
    (simp_all add: instantiate_def heap_type_call heap_MyMeta_call heap_Singleton_call)

lemma toy_classes_not_singleton:
  "\<not> is_singleton (Car_class i j)" "\<not> is_singleton (MyClass1_class i)"
  "\<not> is_singleton (MyClass2_class i)" "\<not> is_singleton (MyVector_class Type i)"
  "\<not> is_singleton (MyVector_class CamelToSnake i)"
  by (simp_all add: is_singleton_iff MyClass2_class_def)

lemma define_MyClass2_eq: "fst (define_MyClass2 w) = Inr (MyClass2_class (next_id w))"
  by (simp add: define_MyClass2_def class_stmt_def meta_new_def MyMeta_new_def meta_init_def
      MyMeta_init_def type_new_direct_def type_create_eq MyClass2_class_def MyMeta_prepare_def
      print_def Let_def)

lemma MyVector_Singleton_first:
  assumes "\<not> dict_has (instances w) i"
  shows "(\<forall>v. fst (instantiate (MyVector_class SnakeSingleton i) a k w) = Inr v \<longrightarrow>
            instances (snd (instantiate (MyVector_class SnakeSingleton i) a k w))
              = instances w @ [(i, v)])
       \<and> (\<forall>e. fst (instantiate (MyVector_class SnakeSingleton i) a k w) = Inl e \<longrightarrow>
            instances (snd (instantiate (MyVector_class SnakeSingleton i) a k w)) = instances w)"
proof -
  let ?C = "MyVector_class SnakeSingleton i"
  from assms have n: "\<not> dict_has (instances w) (c_id ?C)" by simp
  obtain r w1 where c: "type_call ?C a k w = (r, w1)"
    by (cases "type_call ?C a k w")
  then have i: "instances w1 = instances w"
    using instances_type_call [of ?C a k w] by simp
  show ?thesis
  proof (cases "dict_has k ''cls''")
    case True
    then show ?thesis
      by (simp add: instantiate_keyword is_singleton_iff)
  next
    case False
    with c i show ?thesis
      by (cases r) (simp_all add: instantiate_def Singleton_call_first [OF n False])
  qed
qed

text \<open>
  C5, as the claim states it, fails: the first call of the \<^verbatim>\<open>MyVector\<close> whose
  metaclass is \<^verbatim>\<open>SnakeSingleton\<close> changes \<^verbatim>\<open>Singleton._instances\<close>.
\<close>

theorem MyVector_Singleton_changes_instances:
  "instances (snd (instantiate (MyVector_class SnakeSingleton 100) [] [] (world0 101)))
   \<noteq> instances (world0 101)"
  by code_simp

text \<open>
  C5, as the code has it. A call of \<^verbatim>\<open>Car\<close>, \<^verbatim>\<open>MyClass1\<close>, \<^verbatim>\<open>MyClass2\<close> or of the
  \<^verbatim>\<open>MyVector\<close> made by \<^verbatim>\<open>camel_to_snake_case\<close> or by \<^verbatim>\<open>CamelToSnake\<close> leaves
  \<^verbatim>\<open>Singleton._instances\<close> as it is. A call of the \<^verbatim>\<open>MyVector\<close> made by
  \<^verbatim>\<open>SnakeSingleton\<close> changes nothing at all when the class is already a key of
  \<^verbatim>\<open>_instances\<close>; otherwise it appends the entry for the instance it returns, and
  leaves \<^verbatim>\<open>_instances\<close> as it is when it raises. No call of any class changes an
  instance other than the one it creates.
\<close>

theorem toy_instantiation_frame:
  "(cls \<in> {Car_class i j, MyClass1_class i, MyClass2_class i, MyVector_class Type i,
            MyVector_class CamelToSnake i}
      \<longrightarrow> instances (snd (instantiate cls a k w)) = instances w)
   \<and> (dict_has (instances w) i
      \<longrightarrow> snd (instantiate (MyVector_class SnakeSingleton i) a k w) = w)
   \<and> (\<not> dict_has (instances w) i
      \<longrightarrow> (\<forall>v. fst (instantiate (MyVector_class SnakeSingleton i) a k w) = Inr v \<longrightarrow>
               instances (snd (instantiate (MyVector_class SnakeSingleton i) a k w))
                 = instances w @ [(i, v)])
          \<and> (\<forall>e. fst (instantiate (MyVector_class SnakeSingleton i) a k w) = Inl e \<longrightarrow>
               instances (snd (instantiate (MyVector_class SnakeSingleton i) a k w)) = instances w))
   \<and> (n \<noteq> next_id w
      \<longrightarrow> map_of (heap (snd (instantiate cls a k w))) n = map_of (heap w) n)"
proof (intro conjI impI)
  assume "cls \<in> {Car_class i j, MyClass1_class i, MyClass2_class i, MyVector_class Type i,
            MyVector_class CamelToSnake i}"
  then have "\<not> is_singleton cls"
    using toy_classes_not_singleton by blast
  then show "instances (snd (instantiate cls a k w)) = instances w"
    by (rule instantiate_not_singleton)
next
  assume "dict_has (instances w) i"
  then show "snd (instantiate (MyVector_class SnakeSingleton i) a k w) = w"
    by (rule new_MyVector_Singleton_state)
next
  assume "\<not> dict_has (instances w) i"
  then show "\<forall>v. fst (instantiate (MyVector_class SnakeSingleton i) a k w) = Inr v \<longrightarrow>
               instances (snd (instantiate (MyVector_class SnakeSingleton i) a k w))
                 = instances w @ [(i, v)]"
    using MyVector_Singleton_first by blast
next
  assume "\<not> dict_has (instances w) i"
  then show "\<forall>e. fst (instantiate (MyVector_class SnakeSingleton i) a k w) = Inl e \<longrightarrow>
               instances (snd (instantiate (MyVector_class SnakeSingleton i) a k w)) = instances w"
    using MyVector_Singleton_first by blast
next
  assume "n \<noteq> next_id w"
  then show "map_of (heap (snd (instantiate cls a k w))) n = map_of (heap w) n"
    by (rule heap_instantiate)
qed

lemma frame_demo_facts:
  "\<not> dict_has (instances (world0 101)) 100"
  "instances (world0 101) = []"
  "fst (instantiate (MyVector_class SnakeSingleton 100) [] [] (world0 101)) = Inr 101"
  "\<not> dict_has (instances ((world0 101)\<lparr>heap := [(7, \<lparr>o_class = 3, o_attrs = []\<rparr>)], instances := [(5, 7)]\<rparr>)) 100"
  "instances ((world0 101)\<lparr>heap := [(7, \<lparr>o_class = 3, o_attrs = []\<rparr>)], instances := [(5, 7)]\<rparr>) = [(5, 7)]"
  "map_of (heap ((world0 101)\<lparr>heap := [(7, \<lparr>o_class = 3, o_attrs = []\<rparr>)], instances := [(5, 7)]\<rparr>)) 7
     = Some \<lparr>o_class = 3, o_attrs = []\<rparr>"
  "(7::nat) \<noteq> next_id ((world0 101)\<lparr>heap := [(7, \<lparr>o_class = 3, o_attrs = []\<rparr>)], instances := [(5, 7)]\<rparr>)"
  "fst (instantiate (MyVector_class SnakeSingleton 100) [PyStr ''hello''] [(''a'', PyInt 1), (''b'', PyInt 2)]
         ((world0 101)\<lparr>heap := [(7, \<lparr>o_class = 3, o_attrs = []\<rparr>)], instances := [(5, 7)]\<rparr>))
     = Inl (TypeError ''object() takes no parameters'')"
  "dict_has (instances ((world0 102)\<lparr>instances := [(100, 101)]\<rparr>)) 100"
  by code_simp+

theorem toy_instantiation_frame_witness:
  "MyClass2_class 100 \<in> {Car_class 100 0, MyClass1_class 100, MyClass2_class 100,
                          MyVector_class Type 100, MyVector_class CamelToSnake 100}
   \<and> instances (snd (instantiate (MyClass2_class 100) [PyStr ''hello''] [(''a'', PyInt 1), (''b'', PyInt 2)]
         ((world0 101)\<lparr>heap := [(7, \<lparr>o_class = 3, o_attrs = []\<rparr>)], instances := [(5, 7)]\<rparr>)))
       = [(5, 7)]
   \<and> (7::nat) \<noteq> next_id ((world0 101)\<lparr>heap := [(7, \<lparr>o_class = 3, o_attrs = []\<rparr>)], instances := [(5, 7)]\<rparr>)
   \<and> map_of (heap (snd (instantiate (MyClass2_class 100) [PyStr ''hello''] [(''a'', PyInt 1), (''b'', PyInt 2)]
         ((world0 101)\<lparr>heap := [(7, \<lparr>o_class = 3, o_attrs = []\<rparr>)], instances := [(5, 7)]\<rparr>)))) 7
       = Some \<lparr>o_class = 3, o_attrs = []\<rparr>
   \<and> \<not> dict_has (instances (world0 101)) 100
   \<and> fst (instantiate (MyVector_class SnakeSingleton 100) [] [] (world0 101)) = Inr 101
   \<and> instances (snd (instantiate (MyVector_class SnakeSingleton 100) [] [] (world0 101))) = [(100, 101)]
   \<and> \<not> dict_has (instances ((world0 101)\<lparr>heap := [(7, \<lparr>o_class = 3, o_attrs = []\<rparr>)], instances := [(5, 7)]\<rparr>)) 100
   \<and> fst (instantiate (MyVector_class SnakeSingleton 100) [PyStr ''hello''] [(''a'', PyInt 1), (''b'', PyInt 2)]
         ((world0 101)\<lparr>heap := [(7, \<lparr>o_class = 3, o_attrs = []\<rparr>)], instances := [(5, 7)]\<rparr>))
       = Inl (TypeError ''object() takes no parameters'')
   \<and> instances (snd (instantiate (MyVector_class SnakeSingleton 100) [PyStr ''hello''] [(''a'', PyInt 1), (''b'', PyInt 2)]
         ((world0 101)\<lparr>heap := [(7, \<lparr>o_class = 3, o_attrs = []\<rparr>)], instances := [(5, 7)]\<rparr>)))
       = [(5, 7)]
   \<and> dict_has (instances ((world0 102)\<lparr>instances := [(100, 101)]\<rparr>)) 100
   \<and> snd (instantiate (MyVector_class SnakeSingleton 100) [PyInt 1] [] ((world0 102)\<lparr>instances := [(100, 101)]\<rparr>))
       = (world0 102)\<lparr>instances := [(100, 101)]\<rparr>"
proof -
  let ?W1 = "(world0 101)\<lparr>heap := [(7, \<lparr>o_class = 3, o_attrs = []\<rparr>)], instances := [(5, 7)]\<rparr>"
  let ?W3 = "(world0 102)\<lparr>instances := [(100, 101)]\<rparr>"
  let ?a = "[PyStr ''hello'']"
  let ?k = "[(''a'', PyInt 1), (''b'', PyInt 2)]"
  have m: "MyClass2_class 100 \<in> {Car_class 100 0, MyClass1_class 100, MyClass2_class 100,
                          MyVector_class Type 100, MyVector_class CamelToSnake 100}"
    by simp
  note t1 = toy_instantiation_frame [of "MyClass2_class 100" 100 0 ?a ?k ?W1 7]
  note t2 = toy_instantiation_frame [of "MyClass2_class 100" 100 0 "[]" "[]" "world0 101" 7]
  note t3 = toy_instantiation_frame [of "MyClass2_class 100" 100 0 "[PyInt 1]" "[]" ?W3 7]
  from t1 m frame_demo_facts(5) have c1:
    "instances (snd (instantiate (MyClass2_class 100) ?a ?k ?W1)) = [(5, 7)]"
    by simp
  from t1 frame_demo_facts(6,7) have c4:
    "map_of (heap (snd (instantiate (MyClass2_class 100) ?a ?k ?W1))) 7 = Some \<lparr>o_class = 3, o_attrs = []\<rparr>"
    by simp
  from t2 frame_demo_facts(1,2,3) have c2:
    "instances (snd (instantiate (MyVector_class SnakeSingleton 100) [] [] (world0 101))) = [(100, 101)]"
    by simp
  from t1 frame_demo_facts(4,5,8) have c3:
    "instances (snd (instantiate (MyVector_class SnakeSingleton 100) ?a ?k ?W1)) = [(5, 7)]"
    by simp
  from t3 frame_demo_facts(9) have c5:
    "snd (instantiate (MyVector_class SnakeSingleton 100) [PyInt 1] [] ?W3) = ?W3"
    by blast
  from m c1 c2 c3 c4 c5 frame_demo_facts show ?thesis
    by blast
qed

section \<open>The cells of \<^verbatim>\<open>MyClass2\<close>\<close>

text \<open>
  The model of \<^verbatim>\<open>MyMeta\<close> and \<^verbatim>\<open>MyClass2\<close> prints what the notebook records for
  the two cells, the address of the instance apart.
\<close>

lemma define_MyClass2_output:
  "stdout (snd (define_MyClass2 w)) =
     stdout w @
       [''Meta.__prepare__(mcs=<class '__main__.MyMeta'>, name=MyClass2, bases=(), **{'extra': 1}'',
        ''MyMeta.__new__(mcs=<class '__main__.MyMeta'>, name=MyClass2, bases=(), attrs=['__module__', '__qualname__', '__new__', '__init__', '__classcell__'], **{'extra': 1}'',
        ''MyMeta.__init__(cls=<class '__main__.MyClass2'>, name=MyClass2, bases=(), attrs=['__module__', '__qualname__', '__new__', '__init__', '__classcell__'], **{'extra': 1}'',
        ''Class MyClass created'']"
  by code_simp simp

lemma MyClass2_class_resolve:
  "resolve_new (MyClass2_class i) = Some F_MyClass2_new"
  "resolve_init (MyClass2_class i) = Some F_MyClass2_init"
  by code_simp+

lemma MyClass2_class_text:
  "str_class (MyClass2_class i) = ''<class '__main__.MyClass2'>''"
  "class_module (MyClass2_class i) = ''__main__''"
  "c_qualname (MyClass2_class i) = ''MyClass2''"
  by code_simp+

lemma MyClass2_class_sel [simp]:
  "c_id (MyClass2_class i) = i"
  "c_meta (MyClass2_class i) = MyMeta"
  "c_abstract (MyClass2_class i) = []"
  by (simp_all add: MyClass2_class_def)

lemma MyClass2_cell_bind:
  "bind f ''cls'' [''s'', ''a'', ''b''] [(''a'', PyInt 0), (''b'', PyInt 0)]
     [PyStr ''hello''] [(''a'', PyInt 1), (''b'', PyInt 2)]
   = Inr [(''cls'', PyNone), (''s'', PyStr ''hello''), (''a'', PyInt 1), (''b'', PyInt 2),
          (''a'', PyInt 0), (''b'', PyInt 0)]"
  "bind f ''self'' [''s'', ''a'', ''b''] [(''a'', PyInt 0), (''b'', PyInt 0)]
     [PyStr ''hello''] [(''a'', PyInt 1), (''b'', PyInt 2)]
   = Inr [(''self'', PyNone), (''s'', PyStr ''hello''), (''a'', PyInt 1), (''b'', PyInt 2),
          (''a'', PyInt 0), (''b'', PyInt 0)]"
  by (simp_all add: bind_def dict_has_def Let_def)

lemma MyClass2_cell_text:
  "repr_tuple [repr_str ''hello''] = ''('hello',)''"
  "repr_dict [(''a'', PyInt 1), (''b'', PyInt 2)] = ''{'a': 1, 'b': 2}''"
  "dec_int 1 = ''1''" "dec_int 2 = ''2''"
  by code_simp+

lemma new_MyClass2_output:
  "stdout (snd (new_MyClass2 (MyClass2_class i) w)) =
     stdout w @
       [''MyMeta.__call__(cls=<class '__main__.MyClass2'>, args=('hello',), kwargs={'a': 1, 'b': 2}'',
        ''MyClass2.__new__(cls=<class '__main__.MyClass2'>, s=hello, a=1, b=2)'',
        ''MyClass2.__init__(self=<__main__.MyClass2 object at '' @ ptr_fmt w (next_id w) @ ''>, s=hello, a=1, b=2)'',
        ''MyMeta.__call__ return:  <__main__.MyClass2 object at '' @ ptr_fmt w (next_id w) @ ''>'',
        ''MyClass instance created:  <__main__.MyClass2 object at '' @ ptr_fmt w (next_id w) @ ''>'']"
  by (simp add: new_MyClass2_def instantiate_def MyMeta_call_def type_call_def call_new_def
      call_init_def MyClass2_class_resolve MyClass2_new_def MyClass2_init_def MyClass2_cell_bind
      arg_def object_new_def object_repr_def MyClass2_class_text MyClass2_cell_text
      alloc_def log_event_def print_def setattr_def Let_def)

section \<open>A keyword argument named like the receiver\<close>

text \<open>
  \<^verbatim>\<open>MyClass1(1, cls=1)\<close> raises when \<^verbatim>\<open>__new__\<close> is called, and prints nothing;
  \<^verbatim>\<open>MyClass2('hello', cls=1)\<close> raises when \<^verbatim>\<open>MyMeta.__call__\<close> is called, before
  its first \<^verbatim>\<open>print\<close>, and changes nothing.
\<close>

lemma MyClass1_keyword_cls:
  "fst (instantiate (MyClass1_class i) [PyInt 1] [(''cls'', PyInt 1)] w)
     = Inl (TypeError (''__new__() got multiple values for argument 'cls'' @ [CHR 0x27]))
   \<and> stdout (snd (instantiate (MyClass1_class i) [PyInt 1] [(''cls'', PyInt 1)] w)) = stdout w"
  by (simp add: instantiate_def type_call_def call_new_def MyClass1_class_resolve
      MyClass1_new_def multiple_values_def log_event_def Let_def)

lemma MyClass2_keyword_cls:
  "instantiate (MyClass2_class i) [PyStr ''hello''] [(''cls'', PyInt 1)] w
     = (Inl (TypeError (''__call__() got multiple values for argument 'cls'' @ [CHR 0x27])), w)"
  by (simp add: instantiate_def MyMeta_call_def multiple_values_def)

end
